theory Spec2Isabelle
  imports Main "HOL-Library.Sublist" "HOL-Library.Code_Target_Nat"
begin

text \<open>
  A model of \<open>services/logic.ts\<close>: the three table parsers behind \<open>parseTableText\<close>,
  \<open>extractNFInfoFromPDF\<close>, and the two matchers behind \<open>findMatchingRow\<close>. The
  functions that call the OCR service and the PDF library only fetch the texts that
  these functions receive, and are not part of it.
\<close>

section \<open>Strings of the runtime\<close>

text \<open>
  A JavaScript string is a sequence of UTF-16 code units. A code unit is kept as a natural
  number, a string as the list of its code units; \<open>js\<close> turns an ASCII literal of this
  file into such a list. Characters outside ASCII are written by their code.
\<close>

type_synonym jschar = nat
type_synonym jsstring = "nat list"

definition js :: "string \<Rightarrow> jsstring" where
  "js s = map of_char s"

text \<open>
  \<open>\s\<close> of a regular expression, which is also what \<open>trim\<close> removes: the WhiteSpace and
  LineTerminator code points of ECMAScript.
\<close>

definition is_space :: "jschar \<Rightarrow> bool" where
  "is_space c \<longleftrightarrow>
     c = 9 \<or> c = 10 \<or> c = 11 \<or> c = 12 \<or> c = 13 \<or> c = 32 \<or> c = 160 \<or> c = 5760 \<or>
     (8192 \<le> c \<and> c \<le> 8202) \<or> c = 8232 \<or> c = 8233 \<or> c = 8239 \<or> c = 8287 \<or>
     c = 12288 \<or> c = 65279"

text \<open>\<open>\d\<close> is \<open>[0-9]\<close> and \<open>\w\<close> is \<open>[A-Za-z0-9_]\<close> (no unicode flag in the source).\<close>

definition is_digit :: "jschar \<Rightarrow> bool" where
  "is_digit c \<longleftrightarrow> 48 \<le> c \<and> c \<le> 57"

definition is_word :: "jschar \<Rightarrow> bool" where
  "is_word c \<longleftrightarrow> (65 \<le> c \<and> c \<le> 90) \<or> (97 \<le> c \<and> c \<le> 122) \<or> is_digit c \<or> c = 95"

text \<open>\<open>s.trim()\<close>.\<close>

definition trim :: "jsstring \<Rightarrow> jsstring" where
  "trim s = rev (dropWhile is_space (rev (dropWhile is_space s)))"

text \<open>\<open>s.split(c)\<close> for a one-character separator: never the empty array.\<close>

fun split_on :: "jschar \<Rightarrow> jsstring \<Rightarrow> jsstring list" where
  "split_on c [] = [Nil]"
| "split_on c (x # xs) =
     (if x = c then [] # split_on c xs
      else (case split_on c xs of [] \<Rightarrow> [x] # [] | h # t \<Rightarrow> (x # h) # t))"

text \<open>\<open>s.includes(p)\<close> and \<open>s.endsWith(p)\<close>.\<close>

definition str_includes :: "jsstring \<Rightarrow> jsstring \<Rightarrow> bool" where
  "str_includes s p \<longleftrightarrow> sublist p s"

definition endsWith :: "jsstring \<Rightarrow> jsstring \<Rightarrow> bool" where
  "endsWith s p \<longleftrightarrow> suffix p s"

text \<open>\<open>s.replace(/\s+/g, '')\<close> and \<open>s.replace(/\s+/g, ' ')\<close>.\<close>

definition strip_spaces :: "jsstring \<Rightarrow> jsstring" where
  "strip_spaces s = filter (\<lambda>c. \<not> is_space c) s"

function squeeze_spaces :: "jsstring \<Rightarrow> jsstring" where
  "squeeze_spaces [] = []"
| "squeeze_spaces (c # cs) =
     (if is_space c then 32 # squeeze_spaces (dropWhile is_space cs)
      else c # squeeze_spaces cs)"
  by pat_completeness auto
termination
  by (relation "measure length") (auto simp: less_Suc_eq_le length_dropWhile_le)

text \<open>\<open>s.replace(/\./g, '')\<close>, and \<open>s.replace(a, b)\<close> for one-character strings \<open>a\<close>,
  \<open>b\<close>: only the first occurrence is replaced.\<close>

definition remove_periods :: "jsstring \<Rightarrow> jsstring" where
  "remove_periods s = filter (\<lambda>c. c \<noteq> 46) s"

fun replace_first :: "jschar \<Rightarrow> jschar \<Rightarrow> jsstring \<Rightarrow> jsstring" where
  "replace_first a b [] = []"
| "replace_first a b (c # cs) = (if c = a then b # cs else c # replace_first a b cs)"

section \<open>Numbers and case mapping of the runtime\<close>

text \<open>
  The amounts are IEEE doubles, read by \<open>parseFloat\<close> and printed by \<open>toFixed(2)\<close>,
  \<open>toLocaleString('pt-BR', ...)\<close>, \<open>toString()\<close>; \<open>toUpperCase\<close> is the Unicode case
  mapping. The program only calls them, so the development takes them as a parameter
  \<open>rt\<close>, with the type \<open>'n\<close> of numbers left open: what is proved holds for every
  runtime. \<open>parseIntStr\<close> is \<open>`${parseInt(s)}`\<close>, \<open>gtZero\<close> is \<open>n > 0\<close>.
\<close>

record 'n runtime =
  toUpperCase :: "jsstring \<Rightarrow> jsstring"
  parseFloat :: "jsstring \<Rightarrow> 'n"
  gtZero :: "'n \<Rightarrow> bool"
  toFixed2 :: "'n \<Rightarrow> jsstring"
  toLocaleStringBR :: "'n \<Rightarrow> jsstring"
  toStringNum :: "'n \<Rightarrow> jsstring"
  parseIntStr :: "jsstring \<Rightarrow> jsstring"

text \<open>
  \<open>parseFloat(valorText.replace(/\./g, '').replace(',', '.'))\<close>, the numeric parsing
  of the three parsers (logic.ts 160, 242, 303).
\<close>

definition parseValor :: "'n runtime \<Rightarrow> jsstring \<Rightarrow> 'n" where
  "parseValor rt valorText = parseFloat rt (replace_first 44 46 (remove_periods valorText))"

text \<open>
  A runtime to compute with on concrete inputs: a number is an exact count of hundredths,
  which is what the doubles of the program hold for amounts of up to 15 significant
  digits, and \<open>toUpperCase\<close> is the case mapping of Basic Latin and Latin-1 Supplement.
\<close>

function show_nat :: "nat \<Rightarrow> jsstring" where
  "show_nat n = (if n < 10 then [48 + n] else show_nat (n div 10) @ [48 + n mod 10])"
  by pat_completeness auto
termination
  by (relation "measure id") auto

definition digits_val :: "jsstring \<Rightarrow> nat" where
  "digits_val ds = foldl (\<lambda>a c. 10 * a + (c - 48)) 0 ds"

definition two_digits :: "nat \<Rightarrow> jsstring" where
  "two_digits n = [48 + n div 10 mod 10, 48 + n mod 10]"

function group3 :: "jsstring \<Rightarrow> jsstring" where
  "group3 ds =
     (if length ds \<le> 3 then ds
      else group3 (take (length ds - 3) ds) @ 46 # drop (length ds - 3) ds)"
  by pat_completeness auto
termination
  by (relation "measure length") auto

definition dec_parseFloat :: "jsstring \<Rightarrow> nat" where
  "dec_parseFloat s =
     (let ip = takeWhile is_digit s;
          fp = (case dropWhile is_digit s of
                  [] \<Rightarrow> []
                | c # r \<Rightarrow> if c = 46 then takeWhile is_digit r else [])
      in digits_val ip * 100 + digits_val (take 2 (fp @ [48, 48])))"

definition dec_toFixed2 :: "nat \<Rightarrow> jsstring" where
  "dec_toFixed2 n = show_nat (n div 100) @ 46 # two_digits (n mod 100)"

definition dec_toLocaleStringBR :: "nat \<Rightarrow> jsstring" where
  "dec_toLocaleStringBR n = group3 (show_nat (n div 100)) @ 44 # two_digits (n mod 100)"

definition dec_toStringNum :: "nat \<Rightarrow> jsstring" where
  "dec_toStringNum n =
     show_nat (n div 100) @
     (if n mod 100 = 0 then []
      else if n mod 10 = 0 then [46, 48 + n mod 100 div 10]
      else 46 # two_digits (n mod 100))"

definition dec_parseIntStr :: "jsstring \<Rightarrow> jsstring" where
  "dec_parseIntStr s =
     (let ds = takeWhile is_digit s
      in if ds = [] then js ''NaN'' else show_nat (digits_val ds))"

definition upper_latin1 :: "jsstring \<Rightarrow> jsstring" where
  "upper_latin1 s =
     concat (map (\<lambda>c.
       if 97 \<le> c \<and> c \<le> 122 then [c - 32]
       else if c = 223 then [83, 83]
       else if c = 181 then [924]
       else if c = 255 then [376]
       else if 224 \<le> c \<and> c \<le> 254 \<and> c \<noteq> 247 then [c - 32]
       else [c]) s)"

definition decimal_runtime :: "nat runtime" where
  "decimal_runtime =
     \<lparr> toUpperCase = upper_latin1, parseFloat = dec_parseFloat, gtZero = (\<lambda>n. 0 < n),
       toFixed2 = dec_toFixed2, toLocaleStringBR = dec_toLocaleStringBR,
       toStringNum = dec_toStringNum, parseIntStr = dec_parseIntStr \<rparr>"

section \<open>Regular expressions\<close>

text \<open>
  Every quantifier of the source's patterns applies to one character or one character
  class, so a pattern is a sequence of atoms \<open>Q lo hi p\<close>: between \<open>lo\<close> and \<open>hi\<close>
  characters of the class \<open>p\<close>, greedy. \<open>run r s\<close> lists what is left of \<open>s\<close> after each
  way \<open>r\<close> matches at the start of \<open>s\<close>, in the order in which the backtracking matcher
  of the runtime tries them (more repetitions first).
\<close>

datatype atom = Q nat "nat option" "jschar \<Rightarrow> bool"

definition counts :: "nat \<Rightarrow> nat option \<Rightarrow> nat \<Rightarrow> nat list" where
  "counts lo hi avail = rev [lo ..< Suc (case hi of None \<Rightarrow> avail | Some h \<Rightarrow> min h avail)]"

fun run :: "atom list \<Rightarrow> jsstring \<Rightarrow> jsstring list" where
  "run [] s = [s]"
| "run (Q lo hi p # r) s =
     concat (map (\<lambda>k. run r (drop k s)) (counts lo hi (length (takeWhile p s))))"

abbreviation one :: "(jschar \<Rightarrow> bool) \<Rightarrow> atom" where "one p \<equiv> Q 1 (Some 1) p"
abbreviation opt :: "(jschar \<Rightarrow> bool) \<Rightarrow> atom" where "opt p \<equiv> Q 0 (Some 1) p"
abbreviation star :: "(jschar \<Rightarrow> bool) \<Rightarrow> atom" where "star p \<equiv> Q 0 None p"
abbreviation plus :: "(jschar \<Rightarrow> bool) \<Rightarrow> atom" where "plus p \<equiv> Q 1 None p"

text \<open>
  A pattern character under the flag \<open>i\<close> matches the characters with the same
  canonical (upper-case) form. Every character of the source's patterns is in Latin-1,
  where the canonical form is as follows; no character beyond Latin-1 has a canonical
  form in Latin-1.
\<close>

definition canon :: "jschar \<Rightarrow> jschar" where
  "canon c = (if (97 \<le> c \<and> c \<le> 122) \<or> (224 \<le> c \<and> c \<le> 254 \<and> c \<noteq> 247) then c - 32 else c)"

definition ci :: "jschar \<Rightarrow> jschar \<Rightarrow> bool" where
  "ci c x \<longleftrightarrow> x < 256 \<and> canon x = canon c"

definition chr :: "jschar \<Rightarrow> jschar \<Rightarrow> bool" where
  "chr c x \<longleftrightarrow> x = c"

definition lit :: "jsstring \<Rightarrow> atom list" where
  "lit s = map (\<lambda>c. one (chr c)) s"

definition lit_i :: "jsstring \<Rightarrow> atom list" where
  "lit_i s = map (\<lambda>c. one (ci c)) s"

text \<open>\<open>/^r$/\<close> and \<open>/^r/\<close> as tests.\<close>

definition test_full :: "atom list \<Rightarrow> jsstring \<Rightarrow> bool" where
  "test_full r s \<longleftrightarrow> [] \<in> set (run r s)"

definition test_prefix :: "atom list \<Rightarrow> jsstring \<Rightarrow> bool" where
  "test_prefix r s \<longleftrightarrow> run r s \<noteq> []"

text \<open>
  \<open>/pre(grp)/\<close> matched at the start of \<open>s\<close>, up to the end of \<open>s\<close> when \<open>to_end\<close>
  (a final \<open>$\<close>): the text of the group in the first match of the backtracking order.
\<close>

definition capture_at :: "atom list \<Rightarrow> atom list \<Rightarrow> bool \<Rightarrow> jsstring \<Rightarrow> jsstring option" where
  "capture_at pre grp to_end s =
     (case List.find (\<lambda>(t, u). if to_end then u = [] else True)
             (concat (map (\<lambda>t. map (\<lambda>u. (t, u)) (run grp t)) (run pre s))) of
        None \<Rightarrow> None
      | Some (t, u) \<Rightarrow> Some (take (length t - length u) t))"

text \<open>A pattern with no \<open>^\<close> is tried at each position from the left.\<close>

fun first_at :: "(jsstring \<Rightarrow> 'a option) \<Rightarrow> jsstring \<Rightarrow> 'a option" where
  "first_at f [] = f []"
| "first_at f (c # cs) = (case f (c # cs) of Some g \<Rightarrow> Some g | None \<Rightarrow> first_at f cs)"

section \<open>Records of the table\<close>

text \<open>
  \<open>TableRow\<close> of the source. \<open>nf\<close> is \<open>string | null\<close>; \<open>tipo\<close> is optional, so it is
  absent, \<open>null\<close> or one of the two tags the program writes.
\<close>

datatype doc_tipo = ND | NFS

datatype tipo_field = TipoAbsent | TipoNull | Tipo doc_tipo

record 'n TableRow =
  nf :: "jsstring option"
  valor :: 'n
  valorFormatado :: jsstring
  descricao :: jsstring
  tipo :: tipo_field

text \<open>
  Reading a property of \<open>undefined\<close> throws a TypeError; nothing else in the parsers
  can throw. The calls of the logger only report and are left out.
\<close>

datatype error = TypeError

definition nth_opt :: "'a list \<Rightarrow> nat \<Rightarrow> 'a option" where
  "nth_opt xs i = (if i < length xs then Some (xs ! i) else None)"

text \<open>The three lists a parser fills while it classifies the lines.\<close>

record 'n lists =
  descricoes :: "jsstring list"
  numeros :: "jsstring list"
  valores :: "(jsstring \<times> 'n) list"

definition no_lists :: "'n lists" where
  "no_lists = \<lparr> descricoes = [], numeros = [], valores = [] \<rparr>"

definition push_descricao :: "jsstring \<Rightarrow> 'n lists \<Rightarrow> 'n lists" where
  "push_descricao d acc = acc\<lparr> descricoes := descricoes acc @ [d] \<rparr>"

definition push_numero :: "jsstring \<Rightarrow> 'n lists \<Rightarrow> 'n lists" where
  "push_numero n acc = acc\<lparr> numeros := numeros acc @ [n] \<rparr>"

definition push_valor :: "'n runtime \<Rightarrow> jsstring \<Rightarrow> 'n lists \<Rightarrow> 'n lists" where
  "push_valor rt valorText acc =
     acc\<lparr> valores := valores acc @ [(valorText, parseValor rt valorText)] \<rparr>"

text \<open>\<open>text.split('\n').map(line => line.trim()).filter(line => line)\<close>.\<close>

definition lines_of :: "jsstring \<Rightarrow> jsstring list" where
  "lines_of text = filter (\<lambda>line. line \<noteq> []) (map trim (split_on 10 text))"

text \<open>The placeholder description, \<open>Servico\<close> written with a cedilla (code 231).\<close>

definition Servico :: jsstring where
  "Servico = js ''Servi'' @ [231] @ js ''o''"

text \<open>
  The loop that builds the records (logic.ts 199-210, 268-279), from index \<open>i\<close>:
  \<open>numeros[i]\<close> out of range would be \<open>undefined\<close> (kept as no identifier),
  \<open>valores[i].num\<close> out of range throws.
\<close>

function buildRows ::
  "jsstring list \<Rightarrow> jsstring list \<Rightarrow> (jsstring \<times> 'n) list \<Rightarrow> nat \<Rightarrow> nat \<Rightarrow>
   'n TableRow list \<Rightarrow> error + 'n TableRow list" where
  "buildRows ds ns vs totalRegistros i data =
     (if i < totalRegistros then
        (let descricao = (if i < length ds then ds ! i else Servico) in
         case nth_opt vs i of
           None \<Rightarrow> Inl TypeError
         | Some v \<Rightarrow>
             buildRows ds ns vs totalRegistros (Suc i)
               (data @ [\<lparr> nf = nth_opt ns i, valor = snd v, valorFormatado = fst v,
                          descricao = descricao, tipo = TipoAbsent \<rparr>]))
      else Inr data)"
  by pat_completeness auto
termination
  by (relation "measure (\<lambda>(ds, ns, vs, total, i, data). total - i)") auto

subsection \<open>The amount pattern\<close>

text \<open>\<open>/^R?\$?\s*([\d.]+,\d{2})$/\<close> and, without the group, as a test.\<close>

definition valor_pre :: "atom list" where
  "valor_pre = [opt (chr 82), opt (chr 36), star is_space]"

definition valor_grp :: "atom list" where
  "valor_grp = [plus (\<lambda>c. is_digit c \<or> c = 46), one (chr 44), Q 2 (Some 2) is_digit]"

definition valorMatch :: "jsstring \<Rightarrow> jsstring option" where
  "valorMatch line = capture_at valor_pre valor_grp True line"

definition isValor :: "jsstring \<Rightarrow> bool" where
  "isValor line \<longleftrightarrow> test_full (valor_pre @ valor_grp) line"

subsection \<open>Shopee\<close>

definition headersShopee :: "jsstring list" where
  "headersShopee =
     [js ''NF-e'', js ''N'' @ [250] @ js ''mero'',
      js ''Per'' @ [237] @ js ''odo de Servi'' @ [231] @ js ''o'',
      js ''Data de Emiss'' @ [227] @ js ''o'', js ''Valor total'']"

definition isHeaderShopee :: "jsstring \<Rightarrow> bool" where
  "isHeaderShopee line \<longleftrightarrow> list_ex (\<lambda>h. test_full (lit_i h) line) headersShopee"

text \<open>\<open>/^\d{7,9}$/\<close>.\<close>

definition isNumeroShopee :: "jsstring \<Rightarrow> bool" where
  "isNumeroShopee line \<longleftrightarrow> test_full [Q 7 (Some 9) is_digit] line"

text \<open>\<open>descricao.replace(/\s+\d{7,9}\s*$/, '')\<close>: the leftmost match is cut off.\<close>

definition dropTrailingNumero :: "jsstring \<Rightarrow> jsstring" where
  "dropTrailingNumero s =
     (case first_at (\<lambda>t. if test_full [plus is_space, Q 7 (Some 9) is_digit, star is_space] t
                          then Some (length t) else None) s of
        None \<Rightarrow> s
      | Some n \<Rightarrow> take (length s - n) s)"

text \<open>\<open>/^\d+\s+de\s+\w+\s*-?\s*\d*\s+de\s+\w+\s+de\s+\d{4}$/i\<close>.\<close>

definition isJustDate :: "jsstring \<Rightarrow> bool" where
  "isJustDate s \<longleftrightarrow>
     test_full
       ([plus is_digit, plus is_space] @ lit_i (js ''de'') @
        [plus is_space, plus is_word, star is_space, opt (ci 45), star is_space,
         star is_digit, plus is_space] @ lit_i (js ''de'') @
        [plus is_space, plus is_word, plus is_space] @ lit_i (js ''de'') @
        [plus is_space, Q 4 (Some 4) is_digit]) s"

text \<open>Lines 180-188: the description kept from \<open>fullLine\<close>, if any.\<close>

definition addDescricaoShopee :: "jsstring \<Rightarrow> 'n lists \<Rightarrow> 'n lists" where
  "addDescricaoShopee fullLine acc =
     (let descricao = trim (dropTrailingNumero (trim fullLine))
      in if length descricao > 5 \<and> \<not> isJustDate descricao
         then push_descricao descricao acc else acc)"

text \<open>Lines 169-173: whether the next line is joined to a description line.\<close>

definition joinsNext :: "jsstring \<Rightarrow> jsstring \<Rightarrow> bool" where
  "joinsNext line nextLine \<longleftrightarrow>
     (endsWith line (js ''-'') \<or> endsWith line (js ''- '')) \<and>
     \<not> isNumeroShopee nextLine \<and> \<not> isValor nextLine \<and> \<not> isHeaderShopee nextLine"

fun classifyShopee :: "'n runtime \<Rightarrow> jsstring list \<Rightarrow> 'n lists \<Rightarrow> 'n lists" where
  "classifyShopee rt [] acc = acc"
| "classifyShopee rt (line # rest) acc =
     (if isHeaderShopee line then classifyShopee rt rest acc
      else if isNumeroShopee line then classifyShopee rt rest (push_numero line acc)
      else case valorMatch line of
        Some valorText \<Rightarrow> classifyShopee rt rest (push_valor rt valorText acc)
      | None \<Rightarrow>
          if str_includes line (js ''-'') then
            (case rest of
               [] \<Rightarrow> classifyShopee rt rest (addDescricaoShopee line acc)
             | next # rest' \<Rightarrow>
                 if joinsNext line (trim next)
                 then classifyShopee rt rest'
                        (addDescricaoShopee (line @ js '' '' @ trim next) acc)
                 else classifyShopee rt rest (addDescricaoShopee line acc))
          else classifyShopee rt rest acc)"

definition parseTableTextShopee :: "'n runtime \<Rightarrow> jsstring \<Rightarrow> error + 'n TableRow list" where
  "parseTableTextShopee rt text =
     (let acc = classifyShopee rt (lines_of text) no_lists in
      if length (numeros acc) = 0 \<or> length (valores acc) = 0 then Inr []
      else buildRows (descricoes acc) (numeros acc) (valores acc)
             (min (length (numeros acc)) (length (valores acc))) 0 [])"

subsection \<open>Mercado Livre\<close>

definition headersMercadoLivre :: "jsstring list" where
  "headersMercadoLivre =
     [js ''Conceito de faturamento'', js ''Munic'' @ [237] @ js ''pio'',
      js ''N'' @ [250] @ js ''mero da NF-e'', js ''Total da fatura'']"

definition isHeaderMercadoLivre :: "jsstring \<Rightarrow> bool" where
  "isHeaderMercadoLivre line \<longleftrightarrow> list_ex (\<lambda>h. test_full (lit_i h) line) headersMercadoLivre"

text \<open>\<open>/^0+\d+$/\<close>, \<open>line.replace(/^0+/, '')\<close> and \<open>/^\d+$/\<close>.\<close>

definition isNumeroMercadoLivre :: "jsstring \<Rightarrow> bool" where
  "isNumeroMercadoLivre line \<longleftrightarrow> test_full [plus (chr 48), plus is_digit] line"

definition stripLeadingZeros :: "jsstring \<Rightarrow> jsstring" where
  "stripLeadingZeros line = dropWhile (\<lambda>c. c = 48) line"

definition isDigits :: "jsstring \<Rightarrow> bool" where
  "isDigits line \<longleftrightarrow> test_full [plus is_digit] line"

definition municipiosComuns :: "jsstring list" where
  "municipiosComuns =
     [js ''Curitiba'', js ''Osasco'', js ''S'' @ [227] @ js ''o Paulo'', js ''Rio de Janeiro'',
      js ''Belo Horizonte'', js ''Governador Celso Ramos'', js ''Lauro de Freitas'']"

definition isMunicipio :: "jsstring \<Rightarrow> bool" where
  "isMunicipio line \<longleftrightarrow> list_ex (\<lambda>h. test_full (lit_i h) line) municipiosComuns"

fun classifyMercadoLivre :: "'n runtime \<Rightarrow> jsstring list \<Rightarrow> 'n lists \<Rightarrow> 'n lists" where
  "classifyMercadoLivre rt [] acc = acc"
| "classifyMercadoLivre rt (line # rest) acc =
     (if isHeaderMercadoLivre line then classifyMercadoLivre rt rest acc
      else if isNumeroMercadoLivre line
        then classifyMercadoLivre rt rest (push_numero (stripLeadingZeros line) acc)
      else case valorMatch line of
        Some valorText \<Rightarrow> classifyMercadoLivre rt rest (push_valor rt valorText acc)
      | None \<Rightarrow>
          if \<not> isDigits line \<and> \<not> isValor line \<and> \<not> isMunicipio line \<and>
             \<not> isHeaderMercadoLivre line \<and> length line > 3
          then classifyMercadoLivre rt rest (push_descricao line acc)
          else classifyMercadoLivre rt rest acc)"

definition parseTableTextMercadoLivre ::
  "'n runtime \<Rightarrow> jsstring \<Rightarrow> error + 'n TableRow list" where
  "parseTableTextMercadoLivre rt text =
     (let acc = classifyMercadoLivre rt (lines_of text) no_lists in
      if length (numeros acc) = 0 \<or> length (valores acc) = 0 then Inr []
      else buildRows (descricoes acc) (numeros acc) (valores acc)
             (min (length (numeros acc)) (length (valores acc))) 0 [])"

subsection \<open>Magalu\<close>

text \<open>\<open>/^(Servi\<dots>o prestado|Valor)/i\<close>: a test of the start of the line only.\<close>

definition headersMagalu :: "jsstring list" where
  "headersMagalu = [js ''Servi'' @ [231] @ js ''o prestado'', js ''Valor'']"

definition isHeaderMagalu :: "jsstring \<Rightarrow> bool" where
  "isHeaderMagalu line \<longleftrightarrow> list_ex (\<lambda>h. test_prefix (lit_i h) line) headersMagalu"

text \<open>\<open>/R?\$?\s*([\d.]+,\d{2})/i\<close>: anywhere in the line.\<close>

definition valor_pre_i :: "atom list" where
  "valor_pre_i = [opt (ci 82), opt (chr 36), star is_space]"

definition valorMatchMagalu :: "jsstring \<Rightarrow> jsstring option" where
  "valorMatchMagalu line = first_at (capture_at valor_pre_i valor_grp False) line"

text \<open>\<open>line.replace(/[\<dots>]/g, '')\<close> for the ornament glyphs (black circle, bullet,
  black diamond, white circle, J, registered sign, copyright sign).\<close>

definition removeGlyphs :: "jsstring \<Rightarrow> jsstring" where
  "removeGlyphs line =
     filter (\<lambda>c. c \<notin> set [9679, 8226, 9670, 9675, 74, 174, 169]) line"

text \<open>
  The loop that builds the Magalu records (logic.ts 332-344): no identifier, no type.
\<close>

function buildRowsMagalu ::
  "jsstring list \<Rightarrow> (jsstring \<times> 'n) list \<Rightarrow> nat \<Rightarrow> nat \<Rightarrow>
   'n TableRow list \<Rightarrow> error + 'n TableRow list" where
  "buildRowsMagalu ds vs totalRegistros i data =
     (if i < totalRegistros then
        (let descricao = (if i < length ds then ds ! i else Servico) in
         case nth_opt vs i of
           None \<Rightarrow> Inl TypeError
         | Some v \<Rightarrow>
             buildRowsMagalu ds vs totalRegistros (Suc i)
               (data @ [\<lparr> nf = None, valor = snd v, valorFormatado = fst v,
                          descricao = descricao, tipo = TipoNull \<rparr>]))
      else Inr data)"
  by pat_completeness auto
termination
  by (relation "measure (\<lambda>(ds, vs, total, i, data). total - i)") auto

text \<open>Lines 312-322: the description kept from a line, if any.\<close>

definition addDescricaoMagalu :: "jsstring \<Rightarrow> 'n lists \<Rightarrow> 'n lists" where
  "addDescricaoMagalu line acc =
     (if \<not> isDigits line \<and> valorMatchMagalu line = None \<and> \<not> isHeaderMagalu line \<and>
         length line > 2
      then (let cleanLine = trim (removeGlyphs line)
            in if length cleanLine > 2 then push_descricao cleanLine acc else acc)
      else acc)"

fun classifyMagalu :: "'n runtime \<Rightarrow> jsstring list \<Rightarrow> 'n lists \<Rightarrow> 'n lists" where
  "classifyMagalu rt [] acc = acc"
| "classifyMagalu rt (line # rest) acc =
     (if isHeaderMagalu line then classifyMagalu rt rest acc
      else case valorMatchMagalu line of
        Some valorText \<Rightarrow>
          if gtZero rt (parseValor rt valorText)
          then classifyMagalu rt rest (push_valor rt valorText acc)
          else classifyMagalu rt rest (addDescricaoMagalu line acc)
      | None \<Rightarrow> classifyMagalu rt rest (addDescricaoMagalu line acc))"

definition parseTableTextMagalu :: "'n runtime \<Rightarrow> jsstring \<Rightarrow> error + 'n TableRow list" where
  "parseTableTextMagalu rt text =
     (let acc = classifyMagalu rt (lines_of text) no_lists in
      if length (valores acc) = 0 then Inr []
      else buildRowsMagalu (descricoes acc) (valores acc) (length (valores acc)) 0 [])"

subsection \<open>The parser of a marketplace\<close>

definition parseTableText ::
  "'n runtime \<Rightarrow> jsstring \<Rightarrow> jsstring \<Rightarrow> error + 'n TableRow list" where
  "parseTableText rt text marketplace =
     (if marketplace = js ''Shopee'' then parseTableTextShopee rt text
      else if marketplace = js ''Mercado Livre'' then parseTableTextMercadoLivre rt text
      else if marketplace = js ''Magalu'' then parseTableTextMagalu rt text
      else Inr [])"

section \<open>The invoice number of a PDF\<close>

text \<open>
  The five patterns of \<open>extractNFInfoFromPDF\<close>, each as the part before the group and
  the group; all have the flag \<open>i\<close> and none is anchored.
\<close>

definition sep :: "atom" where
  "sep = star (\<lambda>c. is_space c \<or> c = 58)"

definition nfPatterns :: "(atom list \<times> atom list) list" where
  "nfPatterns =
     [(lit_i (js ''N'' @ [250] @ js ''mero da Nota'') @ [sep], [plus is_digit]),
      (lit_i (js ''N'' @ [250] @ js ''mero Nota Fiscal'') @ [sep], [plus is_digit]),
      (lit_i (js ''N'' @ [186] @ js '' da Nota'') @ [sep], [plus is_digit]),
      ([one (ci 78), one (\<lambda>c. ci 186 c \<or> ci 111 c), opt (chr 46), star is_space] @
         lit_i (js ''da Nota'') @ [sep], [plus is_digit]),
      (lit_i (js ''Nota'') @ [sep], [Q 4 None is_digit])]"

text \<open>\<open>pdfText.match(pattern)\<close> and its group 1.\<close>

definition match_group :: "atom list \<times> atom list \<Rightarrow> jsstring \<Rightarrow> jsstring option" where
  "match_group pat s = first_at (capture_at (fst pat) (snd pat) False) s"

text \<open>The loop over the patterns: the first one with a match and a non-empty group.\<close>

fun firstPattern :: "(atom list \<times> atom list) list \<Rightarrow> jsstring \<Rightarrow> jsstring option" where
  "firstPattern [] pdfText = None"
| "firstPattern (pattern # rest) pdfText =
     (case match_group pattern pdfText of
        Some g \<Rightarrow> if g \<noteq> [] then Some g else firstPattern rest pdfText
      | None \<Rightarrow> firstPattern rest pdfText)"

definition NOTA_DE_DEBITO_acento :: jsstring where
  "NOTA_DE_DEBITO_acento = js ''NOTA DE D'' @ [201] @ js ''BITO''"

definition isNotaDebito :: "'n runtime \<Rightarrow> jsstring \<Rightarrow> bool" where
  "isNotaDebito rt pdfText \<longleftrightarrow>
     str_includes (toUpperCase rt pdfText) NOTA_DE_DEBITO_acento \<or>
     str_includes (toUpperCase rt pdfText) (js ''NOTA DE DEBITO'')"

definition extractNFInfoFromPDF :: "'n runtime \<Rightarrow> jsstring \<Rightarrow> jsstring option \<times> doc_tipo" where
  "extractNFInfoFromPDF rt pdfText =
     (let tipo = (if isNotaDebito rt pdfText then ND else NFS)
      in (firstPattern nfPatterns pdfText, tipo))"

section \<open>The matcher\<close>

text \<open>
  \<open>tableData\<close> is an array of references to row objects. The store is the list of the
  objects allocated so far, a reference is an index into it, and a new object goes to the
  end. A matcher returns the reference it found, or \<open>None\<close> for \<open>null\<close>, and the store
  it leaves.
\<close>

type_synonym ref = nat
type_synonym 'n heap = "'n TableRow list"

definition alloc :: "'n TableRow \<Rightarrow> 'n heap \<Rightarrow> ref \<times> 'n heap" where
  "alloc r h = (length h, h @ [r])"

subsection \<open>Magalu\<close>

text \<open>
  \<open>const [inteiro, decimal] = valorBase.split('.')\<close>; \<open>decimal\<close> is \<open>undefined\<close> when
  there is no period, and then prints as \<open>undefined\<close>, and \<open>parseInt\<close> of it as \<open>NaN\<close>.
\<close>

definition inteiro_of :: "jsstring \<Rightarrow> jsstring" where
  "inteiro_of valorBase = (case split_on 46 valorBase of [] \<Rightarrow> [] | x # _ \<Rightarrow> x)"

definition decimal_of :: "jsstring \<Rightarrow> jsstring option" where
  "decimal_of valorBase = nth_opt (split_on 46 valorBase) 1"

definition show_decimal :: "jsstring option \<Rightarrow> jsstring" where
  "show_decimal d = (case d of None \<Rightarrow> js ''undefined'' | Some x \<Rightarrow> x)"

definition show_parseInt :: "'n runtime \<Rightarrow> jsstring option \<Rightarrow> jsstring" where
  "show_parseInt rt d = (case d of None \<Rightarrow> js ''NaN'' | Some x \<Rightarrow> parseIntStr rt x)"

definition valorFormatsMagalu :: "'n runtime \<Rightarrow> 'n TableRow \<Rightarrow> jsstring list" where
  "valorFormatsMagalu rt row =
     (let valorBase = toFixed2 rt (valor row);
          inteiro = inteiro_of valorBase;
          decimal = show_decimal (decimal_of valorBase);
          decimalInt = show_parseInt rt (decimal_of valorBase)
      in [js ''R$'' @ inteiro @ js '','' @ decimal,
          js ''R$ '' @ inteiro @ js '','' @ decimal,
          js ''R$'' @ inteiro @ js '','' @ decimalInt,
          js ''R$ '' @ inteiro @ js '','' @ decimalInt,
          js ''R$'' @ inteiro @ js ''.'' @ decimal,
          js ''R$ '' @ inteiro @ js ''.'' @ decimal,
          js ''R$'' @ inteiro @ js ''.'' @ decimalInt,
          js ''R$ '' @ inteiro @ js ''.'' @ decimalInt,
          inteiro @ js '','' @ decimal,
          inteiro @ js '','' @ decimalInt,
          inteiro @ js ''.'' @ decimal,
          inteiro @ js ''.'' @ decimalInt,
          valorFormatado row])"

definition normalizeMagalu :: "'n runtime \<Rightarrow> jsstring \<Rightarrow> jsstring" where
  "normalizeMagalu rt s = toUpperCase rt (strip_spaces s)"

text \<open>The inner loop (lines 390-398): some format is found in the normalized text.\<close>

definition valorFoundMagalu :: "'n runtime \<Rightarrow> jsstring \<Rightarrow> 'n TableRow \<Rightarrow> bool" where
  "valorFoundMagalu rt normalizedPdfText row \<longleftrightarrow>
     list_ex (\<lambda>formato. str_includes normalizedPdfText (normalizeMagalu rt formato))
       (valorFormatsMagalu rt row)"

text \<open>Lines 401-407: \<open>{...row, nf: nfInfo.nf || 'XXXX', tipo: nfInfo.tipo}\<close>.\<close>

definition updatedRow :: "'n runtime \<Rightarrow> jsstring \<Rightarrow> 'n TableRow \<Rightarrow> 'n TableRow" where
  "updatedRow rt pdfText row =
     (let nfInfo = extractNFInfoFromPDF rt pdfText
      in row\<lparr> nf := Some (case fst nfInfo of
                             None \<Rightarrow> js ''XXXX''
                           | Some n \<Rightarrow> if n \<noteq> [] then n else js ''XXXX''),
              tipo := Tipo (snd nfInfo) \<rparr>)"

fun loopMagalu ::
  "'n runtime \<Rightarrow> 'n heap \<Rightarrow> jsstring \<Rightarrow> jsstring \<Rightarrow> ref list \<Rightarrow> ref option \<times> 'n heap" where
  "loopMagalu rt h pdfText normalizedPdfText [] = (None, h)"
| "loopMagalu rt h pdfText normalizedPdfText (row # rest) =
     (if valorFoundMagalu rt normalizedPdfText (h ! row)
      then (let (r, h') = alloc (updatedRow rt pdfText (h ! row)) h in (Some r, h'))
      else loopMagalu rt h pdfText normalizedPdfText rest)"

definition findMatchingRowMagalu ::
  "'n runtime \<Rightarrow> 'n heap \<Rightarrow> jsstring \<Rightarrow> ref list \<Rightarrow> ref option \<times> 'n heap" where
  "findMatchingRowMagalu rt h pdfText tableData =
     loopMagalu rt h pdfText (normalizeMagalu rt pdfText) tableData"

subsection \<open>The other marketplaces\<close>

text \<open>
  \<open>fileName.match(/\d{7,9}/g)\<close>: the matches from left to right, each search starting
  where the last match ended; \<open>null\<close> is the empty list.
\<close>

function match_all :: "atom list \<Rightarrow> jsstring \<Rightarrow> jsstring list" where
  "match_all r s =
     (case run r s of
        t # _ \<Rightarrow>
          if length t < length s then take (length s - length t) s # match_all r t
          else (case s of [] \<Rightarrow> [Nil] | _ # cs \<Rightarrow> [] # match_all r cs)
      | [] \<Rightarrow> (case s of [] \<Rightarrow> [] | _ # cs \<Rightarrow> match_all r cs))"
  by pat_completeness auto
termination
  by (relation "measure (\<lambda>(r, s). length s)") auto

definition fileNameNumbers :: "jsstring \<Rightarrow> jsstring list" where
  "fileNameNumbers fileName = match_all [Q 7 (Some 9) is_digit] fileName"

text \<open>Lines 427-433: \<open>tableData.find(row => row.nf === fileNum)\<close> for each number.\<close>

fun byFileName :: "'n heap \<Rightarrow> ref list \<Rightarrow> jsstring list \<Rightarrow> ref option" where
  "byFileName h tableData [] = None"
| "byFileName h tableData (fileNum # rest) =
     (case List.find (\<lambda>row. nf (h ! row) = Some fileNum) tableData of
        Some rowByFileName \<Rightarrow> Some rowByFileName
      | None \<Rightarrow> byFileName h tableData rest)"

definition valorFormats :: "'n runtime \<Rightarrow> 'n TableRow \<Rightarrow> jsstring list" where
  "valorFormats rt row =
     [valorFormatado row,
      replace_first 46 44 (toFixed2 rt (valor row)),
      toLocaleStringBR rt (valor row),
      replace_first 46 44 (toStringNum rt (valor row)),
      toFixed2 rt (valor row)]"

definition valorFound :: "'n runtime \<Rightarrow> jsstring \<Rightarrow> 'n TableRow \<Rightarrow> bool" where
  "valorFound rt normalizedPdfText row \<longleftrightarrow>
     list_ex (\<lambda>formato. str_includes normalizedPdfText (strip_spaces formato))
       (valorFormats rt row)"

definition nfFound :: "jsstring \<Rightarrow> 'n TableRow \<Rightarrow> bool" where
  "nfFound normalizedPdfText row \<longleftrightarrow>
     (case nf row of
        None \<Rightarrow> False
      | Some n \<Rightarrow> n \<noteq> [] \<and> str_includes normalizedPdfText n)"

text \<open>
  The three passes over the rows (lines 436-466, 468-493, 495-500). \<open>nfFound\<close> is
  \<open>row.nf && normalizedPdfText.includes(row.nf)\<close>: an identifier that is \<open>null\<close> or
  the empty string is skipped.
\<close>

definition byNumeroValor :: "'n runtime \<Rightarrow> 'n heap \<Rightarrow> jsstring \<Rightarrow> ref list \<Rightarrow> ref option" where
  "byNumeroValor rt h normalizedPdfText tableData =
     List.find (\<lambda>row. nfFound normalizedPdfText (h ! row) \<and>
                       valorFound rt normalizedPdfText (h ! row)) tableData"

definition byValor :: "'n runtime \<Rightarrow> 'n heap \<Rightarrow> jsstring \<Rightarrow> ref list \<Rightarrow> ref option" where
  "byValor rt h normalizedPdfText tableData =
     List.find (\<lambda>row. valorFound rt normalizedPdfText (h ! row)) tableData"

definition byNumero :: "'n heap \<Rightarrow> jsstring \<Rightarrow> ref list \<Rightarrow> ref option" where
  "byNumero h normalizedPdfText tableData =
     List.find (\<lambda>row. nfFound normalizedPdfText (h ! row)) tableData"

definition findMatchingRow ::
  "'n runtime \<Rightarrow> 'n heap \<Rightarrow> jsstring \<Rightarrow> ref list \<Rightarrow> jsstring \<Rightarrow> jsstring \<Rightarrow>
   ref option \<times> 'n heap" where
  "findMatchingRow rt h pdfText tableData fileName marketplace =
     (if marketplace = js ''Magalu'' then findMatchingRowMagalu rt h pdfText tableData
      else
        (let normalizedPdfText = toUpperCase rt (squeeze_spaces pdfText) in
         case byFileName h tableData (fileNameNumbers fileName) of
           Some row \<Rightarrow> (Some row, h)
         | None \<Rightarrow>
         (case byNumeroValor rt h normalizedPdfText tableData of
           Some row \<Rightarrow> (Some row, h)
         | None \<Rightarrow>
         (case byValor rt h normalizedPdfText tableData of
           Some row \<Rightarrow> (Some row, h)
         | None \<Rightarrow>
         (case byNumero h normalizedPdfText tableData of
           Some row \<Rightarrow> (Some row, h)
         | None \<Rightarrow> (None, h))))))"

section \<open>Notions used in the statements\<close>

text \<open>The record that the building loop makes at index \<open>k\<close>.\<close>

definition rowAt :: "jsstring list \<Rightarrow> jsstring list \<Rightarrow> (jsstring \<times> 'n) list \<Rightarrow> nat \<Rightarrow> 'n TableRow" where
  "rowAt ds ns vs k =
     \<lparr> nf = Some (ns ! k), valor = snd (vs ! k), valorFormatado = fst (vs ! k),
       descricao = (if k < length ds then ds ! k else Servico), tipo = TipoAbsent \<rparr>"

definition rowAtMagalu :: "jsstring list \<Rightarrow> (jsstring \<times> 'n) list \<Rightarrow> nat \<Rightarrow> 'n TableRow" where
  "rowAtMagalu ds vs k =
     \<lparr> nf = None, valor = snd (vs ! k), valorFormatado = fst (vs ! k),
       descricao = (if k < length ds then ds ! k else Servico), tipo = TipoNull \<rparr>"

text \<open>
  The identifier lines and the amounts of a table text, in the order of the text: what
  the classification of Shopee and of Mercado Livre collects.
\<close>

definition numerosShopee :: "jsstring \<Rightarrow> jsstring list" where
  "numerosShopee text = filter (\<lambda>l. \<not> isHeaderShopee l \<and> isNumeroShopee l) (lines_of text)"

definition valoresShopee :: "'n runtime \<Rightarrow> jsstring \<Rightarrow> (jsstring \<times> 'n) list" where
  "valoresShopee rt text =
     map (\<lambda>v. (v, parseValor rt v))
       (List.map_filter valorMatch
          (filter (\<lambda>l. \<not> isHeaderShopee l \<and> \<not> isNumeroShopee l) (lines_of text)))"

definition numerosMercadoLivre :: "jsstring \<Rightarrow> jsstring list" where
  "numerosMercadoLivre text =
     map stripLeadingZeros
       (filter (\<lambda>l. \<not> isHeaderMercadoLivre l \<and> isNumeroMercadoLivre l) (lines_of text))"

definition valoresMercadoLivre :: "'n runtime \<Rightarrow> jsstring \<Rightarrow> (jsstring \<times> 'n) list" where
  "valoresMercadoLivre rt text =
     map (\<lambda>v. (v, parseValor rt v))
       (List.map_filter valorMatch
          (filter (\<lambda>l. \<not> isHeaderMercadoLivre l \<and> \<not> isNumeroMercadoLivre l) (lines_of text)))"

text \<open>Three identifier lines followed by two amount lines.\<close>

definition ABC_10_20 :: jsstring where
  "ABC_10_20 = js ''1234567'' @ [10] @ js ''2345678'' @ [10] @ js ''3456789'' @ [10] @
               js ''10,00'' @ [10] @ js ''20,00''"

definition ABC_10_20_zeros :: jsstring where
  "ABC_10_20_zeros = js ''0001234'' @ [10] @ js ''0002345'' @ [10] @ js ''0003456'' @ [10] @
                     js ''10,00'' @ [10] @ js ''20,00''"
text \<open>
  The five renderings of a record's amount that the matcher of the other marketplaces
  looks for: the display string, fixed-2 with a comma, the pt-BR locale form, the
  shortest form with a comma, fixed-2 with a period, each without whitespace.
\<close>

definition amountRendered :: "'n runtime \<Rightarrow> jsstring \<Rightarrow> 'n TableRow \<Rightarrow> bool" where
  "amountRendered rt normalizedPdfText row \<longleftrightarrow>
     str_includes normalizedPdfText (strip_spaces (valorFormatado row)) \<or>
     str_includes normalizedPdfText
       (strip_spaces (replace_first 46 44 (toFixed2 rt (valor row)))) \<or>
     str_includes normalizedPdfText (strip_spaces (toLocaleStringBR rt (valor row))) \<or>
     str_includes normalizedPdfText
       (strip_spaces (replace_first 46 44 (toStringNum rt (valor row)))) \<or>
     str_includes normalizedPdfText (strip_spaces (toFixed2 rt (valor row)))"

text \<open>Two stores to compute with: two Shopee records, and two records with no identifier.\<close>

definition two_rows :: "nat heap" where
  "two_rows =
     [\<lparr> nf = Some (js ''1234567''), valor = 1050, valorFormatado = js ''10,50'',
        descricao = js ''Frete - Sul'', tipo = TipoAbsent \<rparr>,
      \<lparr> nf = Some (js ''7654321''), valor = 2005, valorFormatado = js ''20,05'',
        descricao = js ''Taxa - Norte'', tipo = TipoAbsent \<rparr>]"

definition no_nf_rows :: "nat heap" where
  "no_nf_rows =
     [\<lparr> nf = Some [], valor = 1000, valorFormatado = js ''10,00'',
        descricao = Servico, tipo = TipoAbsent \<rparr>,
      \<lparr> nf = None, valor = 2005, valorFormatado = js ''20,05'',
        descricao = Servico, tipo = TipoNull \<rparr>]"
text \<open>A Mercado Livre table whose only identifier line consists of zeros.\<close>

definition zeros_table :: jsstring where
  "zeros_table = js ''000'' @ [10] @ js ''10,00''"
text \<open>The record that a call of the matcher returns, read from the store it leaves.\<close>

definition result_row :: "ref option \<times> 'n heap \<Rightarrow> 'n TableRow option" where
  "result_row res = map_option (\<lambda>r. snd res ! r) (fst res)"

text \<open>A store of two Magalu records, as the Magalu parser makes them.\<close>

definition magalu_rows :: "nat heap" where
  "magalu_rows =
     [\<lparr> nf = None, valor = 1050, valorFormatado = js ''10,50'',
        descricao = js ''Frete'', tipo = TipoNull \<rparr>,
      \<lparr> nf = None, valor = 2005, valorFormatado = js ''20,05'',
        descricao = js ''Taxa'', tipo = TipoNull \<rparr>]"
text \<open>Two PDF texts: a debit note with a labelled number, and a text with no number.\<close>

definition pdf_debit_note :: jsstring where
  "pdf_debit_note = js ''No. da nota: 55 - Nota de d'' @ [233] @ js ''bito''"

definition pdf_no_number :: jsstring where
  "pdf_no_number = js ''recibo sem numero''"

section \<open>Properties of the parsers\<close>

declare buildRows.simps [simp del] buildRowsMagalu.simps [simp del]

lemma buildRows_eq:
  "tot \<le> length vs \<Longrightarrow> tot \<le> length ns \<Longrightarrow> i \<le> tot \<Longrightarrow>
   buildRows ds ns vs tot i data = Inr (data @ map (rowAt ds ns vs) [i..<tot])"
proof (induction ds ns vs tot i data rule: buildRows.induct)
  case (1 ds ns vs tot i data)
  show ?case
  proof (cases "i < tot")
    case False
    with 1(4) show ?thesis by (subst buildRows.simps) simp
  next
    case True
    with 1(2,3) have iv: "nth_opt vs i = Some (vs ! i)" and inn: "nth_opt ns i = Some (ns ! i)"
      by (simp_all add: nth_opt_def)
    have "buildRows ds ns vs tot (Suc i) (data @ [rowAt ds ns vs i])
          = Inr ((data @ [rowAt ds ns vs i]) @ map (rowAt ds ns vs) [Suc i..<tot])"
      using 1(1) [OF True refl iv] 1(2,3) True inn by (simp add: rowAt_def)
    then show ?thesis
      using True iv inn
      by (simp add: buildRows.simps [of ds ns vs tot i data] rowAt_def upt_conv_Cons)
  qed
qed

lemma buildRowsMagalu_eq:
  "tot \<le> length vs \<Longrightarrow> i \<le> tot \<Longrightarrow>
   buildRowsMagalu ds vs tot i data = Inr (data @ map (rowAtMagalu ds vs) [i..<tot])"
proof (induction ds vs tot i data rule: buildRowsMagalu.induct)
  case (1 ds vs tot i data)
  show ?case
  proof (cases "i < tot")
    case False
    with 1(3) show ?thesis by (subst buildRowsMagalu.simps) simp
  next
    case True
    with 1(2) have iv: "nth_opt vs i = Some (vs ! i)"
      by (simp add: nth_opt_def)
    have "buildRowsMagalu ds vs tot (Suc i) (data @ [rowAtMagalu ds vs i])
          = Inr ((data @ [rowAtMagalu ds vs i]) @ map (rowAtMagalu ds vs) [Suc i..<tot])"
      using 1(1) [OF True refl iv] 1(2) True by (simp add: rowAtMagalu_def)
    then show ?thesis
      using True iv
      by (simp add: buildRowsMagalu.simps [of ds vs tot i data] rowAtMagalu_def upt_conv_Cons)
  qed
qed


lemma js_1234_56_grouped:
  "replace_first 44 46 (remove_periods (js ''1.234,56'')) = js ''1234.56''"
  by (simp add: js_def remove_periods_def)

lemma js_1234_56_plain:
  "replace_first 44 46 (remove_periods (js ''1234,56'')) = js ''1234.56''"
  by (simp add: js_def remove_periods_def)

text \<open>
  C4. The amount parser removes every period, replaces the decimal comma by a period and
  parses the result. Hence two amount strings that differ only in their periods parse to
  the same number, and \<open>1.234,56\<close> and \<open>1234,56\<close> both parse to the number that the
  runtime reads from \<open>1234.56\<close>.
\<close>

theorem parseValor_grouping_invariant:
  "parseValor rt s = parseFloat rt (replace_first 44 46 (filter (\<lambda>c. c \<noteq> 46) s)) \<and>
   (remove_periods s = remove_periods s' \<longrightarrow> parseValor rt s = parseValor rt s') \<and>
   parseValor rt (js ''1.234,56'') = parseValor rt (js ''1234,56'') \<and>
   parseValor rt (js ''1.234,56'') = parseFloat rt (js ''1234.56'')"
proof -
  have a: "parseValor rt s = parseFloat rt (replace_first 44 46 (filter (\<lambda>c. c \<noteq> 46) s))"
    by (simp add: parseValor_def remove_periods_def)
  have b: "remove_periods s = remove_periods s' \<longrightarrow> parseValor rt s = parseValor rt s'"
    by (simp add: parseValor_def)
  have c: "parseValor rt (js ''1.234,56'') = parseFloat rt (js ''1234.56'')"
    by (simp only: parseValor_def js_1234_56_grouped)
  have d: "parseValor rt (js ''1234,56'') = parseFloat rt (js ''1234.56'')"
    by (simp only: parseValor_def js_1234_56_plain)
  from a b c d show ?thesis by simp
qed

theorem parseValor_grouping_invariant_witness:
  "remove_periods (js ''1.2.3,45'') = remove_periods (js ''12.3,45'') \<and>
   parseValor decimal_runtime (js ''1.2.3,45'') = parseValor decimal_runtime (js ''12.3,45'') \<and>
   parseValor decimal_runtime (js ''1.2.3,45'') = 12345"
proof -
  have h: "remove_periods (js ''1.2.3,45'') = remove_periods (js ''12.3,45'')"
    by (simp add: js_def remove_periods_def)
  have v: "parseValor decimal_runtime (js ''12.3,45'') = 12345"
    by code_simp
  from parseValor_grouping_invariant [of decimal_runtime "js ''1.2.3,45''" "js ''12.3,45''"] h v
  show ?thesis by simp
qed

text \<open>
  C10. For a marketplace other than \<open>Shopee\<close>, \<open>Mercado Livre\<close> and \<open>Magalu\<close>,
  \<open>parseTableText\<close> returns the empty record sequence, and does not throw, whatever
  the text.
\<close>

theorem parseTableText_unknown_marketplace:
  "marketplace \<noteq> js ''Shopee'' \<Longrightarrow> marketplace \<noteq> js ''Mercado Livre'' \<Longrightarrow>
   marketplace \<noteq> js ''Magalu'' \<Longrightarrow> parseTableText rt text marketplace = Inr []"
  by (simp add: parseTableText_def)

theorem parseTableText_unknown_marketplace_witness:
  "js ''Amazon'' \<noteq> js ''Shopee'' \<and> js ''Amazon'' \<noteq> js ''Mercado Livre'' \<and>
   js ''Amazon'' \<noteq> js ''Magalu'' \<and>
   parseTableText decimal_runtime (js ''1234567'' @ [10] @ js ''10,00'') (js ''Amazon'') = Inr []"
proof -
  have a: "js ''Amazon'' \<noteq> js ''Shopee''" and b: "js ''Amazon'' \<noteq> js ''Mercado Livre''"
    and c: "js ''Amazon'' \<noteq> js ''Magalu''"
    by (simp_all add: js_def)
  from parseTableText_unknown_marketplace [OF a b c] a b c show ?thesis by simp
qed

lemma parseTableTextShopee_rows:
  "numeros (classifyShopee rt (lines_of text) no_lists) \<noteq> [] \<Longrightarrow>
   valores (classifyShopee rt (lines_of text) no_lists) \<noteq> [] \<Longrightarrow>
   parseTableTextShopee rt text =
     Inr (map (rowAt (descricoes (classifyShopee rt (lines_of text) no_lists))
                     (numeros (classifyShopee rt (lines_of text) no_lists))
                     (valores (classifyShopee rt (lines_of text) no_lists)))
            [0 ..< min (length (numeros (classifyShopee rt (lines_of text) no_lists)))
                       (length (valores (classifyShopee rt (lines_of text) no_lists)))])"
  by (simp add: parseTableTextShopee_def Let_def buildRows_eq)

lemma parseTableTextMercadoLivre_rows:
  "numeros (classifyMercadoLivre rt (lines_of text) no_lists) \<noteq> [] \<Longrightarrow>
   valores (classifyMercadoLivre rt (lines_of text) no_lists) \<noteq> [] \<Longrightarrow>
   parseTableTextMercadoLivre rt text =
     Inr (map (rowAt (descricoes (classifyMercadoLivre rt (lines_of text) no_lists))
                     (numeros (classifyMercadoLivre rt (lines_of text) no_lists))
                     (valores (classifyMercadoLivre rt (lines_of text) no_lists)))
            [0 ..< min (length (numeros (classifyMercadoLivre rt (lines_of text) no_lists)))
                       (length (valores (classifyMercadoLivre rt (lines_of text) no_lists)))])"
  by (simp add: parseTableTextMercadoLivre_def Let_def buildRows_eq)

lemma parseTableTextMagalu_rows:
  "valores (classifyMagalu rt (lines_of text) no_lists) \<noteq> [] \<Longrightarrow>
   parseTableTextMagalu rt text =
     Inr (map (rowAtMagalu (descricoes (classifyMagalu rt (lines_of text) no_lists))
                           (valores (classifyMagalu rt (lines_of text) no_lists)))
            [0 ..< length (valores (classifyMagalu rt (lines_of text) no_lists))])"
  by (simp add: parseTableTextMagalu_def Let_def buildRowsMagalu_eq)

text \<open>
  C3. None of the three parsers throws: each returns a record sequence for every text,
  and the empty one when classification leaves no identifier (Shopee, Mercado Livre) or
  no amount (all three).
\<close>

theorem parsers_never_raise:
  "(\<exists>rows. parseTableTextShopee rt text = Inr rows) \<and>
   (\<exists>rows. parseTableTextMercadoLivre rt text = Inr rows) \<and>
   (\<exists>rows. parseTableTextMagalu rt text = Inr rows) \<and>
   (numeros (classifyShopee rt (lines_of text) no_lists) = [] \<or>
    valores (classifyShopee rt (lines_of text) no_lists) = []
      \<longrightarrow> parseTableTextShopee rt text = Inr []) \<and>
   (numeros (classifyMercadoLivre rt (lines_of text) no_lists) = [] \<or>
    valores (classifyMercadoLivre rt (lines_of text) no_lists) = []
      \<longrightarrow> parseTableTextMercadoLivre rt text = Inr []) \<and>
   (valores (classifyMagalu rt (lines_of text) no_lists) = []
      \<longrightarrow> parseTableTextMagalu rt text = Inr [])"
proof -
  have a: "\<exists>rows. parseTableTextShopee rt text = Inr rows"
  proof (cases "numeros (classifyShopee rt (lines_of text) no_lists) = [] \<or>
                valores (classifyShopee rt (lines_of text) no_lists) = []")
    case True
    then show ?thesis by (auto simp: parseTableTextShopee_def Let_def)
  next
    case False
    then show ?thesis using parseTableTextShopee_rows [of rt "text"] by blast
  qed
  have b: "\<exists>rows. parseTableTextMercadoLivre rt text = Inr rows"
  proof (cases "numeros (classifyMercadoLivre rt (lines_of text) no_lists) = [] \<or>
                valores (classifyMercadoLivre rt (lines_of text) no_lists) = []")
    case True
    then show ?thesis by (auto simp: parseTableTextMercadoLivre_def Let_def)
  next
    case False
    then show ?thesis using parseTableTextMercadoLivre_rows [of rt "text"] by blast
  qed
  have c: "\<exists>rows. parseTableTextMagalu rt text = Inr rows"
  proof (cases "valores (classifyMagalu rt (lines_of text) no_lists) = []")
    case True
    then show ?thesis by (simp add: parseTableTextMagalu_def Let_def)
  next
    case False
    then show ?thesis using parseTableTextMagalu_rows [of rt "text"] by blast
  qed
  have d: "numeros (classifyShopee rt (lines_of text) no_lists) = [] \<or>
           valores (classifyShopee rt (lines_of text) no_lists) = []
             \<longrightarrow> parseTableTextShopee rt text = Inr []"
    by (auto simp: parseTableTextShopee_def Let_def)
  have e: "numeros (classifyMercadoLivre rt (lines_of text) no_lists) = [] \<or>
           valores (classifyMercadoLivre rt (lines_of text) no_lists) = []
             \<longrightarrow> parseTableTextMercadoLivre rt text = Inr []"
    by (auto simp: parseTableTextMercadoLivre_def Let_def)
  have f: "valores (classifyMagalu rt (lines_of text) no_lists) = []
             \<longrightarrow> parseTableTextMagalu rt text = Inr []"
    by (simp add: parseTableTextMagalu_def Let_def)
  from a b c d e f show ?thesis by blast
qed

theorem parsers_never_raise_witness:
  "valores (classifyShopee decimal_runtime (lines_of (js ''1234567'')) no_lists) = [] \<and>
   parseTableTextShopee decimal_runtime (js ''1234567'') = Inr [] \<and>
   numeros (classifyMercadoLivre decimal_runtime (lines_of (js ''1234567'')) no_lists) = [] \<and>
   parseTableTextMercadoLivre decimal_runtime (js ''1234567'') = Inr [] \<and>
   valores (classifyMagalu decimal_runtime (lines_of (js ''1234567'')) no_lists) = [] \<and>
   parseTableTextMagalu decimal_runtime (js ''1234567'') = Inr []"
proof -
  have a: "valores (classifyShopee decimal_runtime (lines_of (js ''1234567'')) no_lists) = []"
    by code_simp
  have b: "numeros (classifyMercadoLivre decimal_runtime (lines_of (js ''1234567'')) no_lists) = []"
    by code_simp
  have c: "valores (classifyMagalu decimal_runtime (lines_of (js ''1234567'')) no_lists) = []"
    by code_simp
  from parsers_never_raise [of decimal_runtime "js ''1234567''"] a b c
  show ?thesis by blast
qed

lemma trim_trim: "trim (trim s) = trim s"
proof -
  define u where "u = dropWhile is_space s"
  define w where "w = dropWhile is_space (rev u)"
  have t: "trim s = rev w" by (simp add: trim_def u_def w_def)
  have "dropWhile is_space (rev w) = rev w"
  proof (cases "w = []")
    case True then show ?thesis by simp
  next
    case False
    have "rev u = takeWhile is_space (rev u) @ w" by (simp add: w_def)
    then have "u = rev w @ rev (takeWhile is_space (rev u))"
      by (metis rev_append rev_rev_ident)
    with False have "hd (rev w) = hd u" by (metis hd_append2 rev_is_Nil_conv)
    moreover have "u \<noteq> []" using False by (auto simp: w_def)
    then have "\<not> is_space (hd u)" unfolding u_def by (rule hd_dropWhile)
    ultimately show ?thesis using False by (cases "rev w") auto
  qed
  moreover have "dropWhile is_space w = w" by (simp add: w_def)
  ultimately have "trim (rev w) = rev w" by (simp add: trim_def)
  then show ?thesis unfolding t .
qed

lemma lines_of_trimmed: "l \<in> set (lines_of s) \<Longrightarrow> trim l = l"
  by (auto simp: lines_of_def trim_trim)

lemma concat_map_concat:
  "concat (map (\<lambda>k. concat (f k)) xs) = concat (concat (map f xs))"
  by (induction xs) auto

lemma run_append: "run (a @ b) s = concat (map (run b) (run a s))"
proof (induction a arbitrary: s)
  case Nil
  then show ?case by simp
next
  case (Cons x a)
  then show ?case by (cases x) (simp add: map_concat o_def concat_map_concat)
qed

lemma capture_at_None_iff:
  "capture_at pre grp True s = None \<longleftrightarrow> \<not> test_full (pre @ grp) s"
proof -
  have "find (\<lambda>(t, u). u = [])
          (concat (map (\<lambda>t. map (\<lambda>u. (t, u)) (run grp t)) (run pre s))) = None
        \<longleftrightarrow> \<not> (\<exists>t\<in>set (run pre s). [] \<in> set (run grp t))"
    by (auto simp: find_None_iff)
  then show ?thesis
    by (auto simp: capture_at_def test_full_def run_append split: option.splits)
qed

lemma isValor_iff: "isValor l \<longleftrightarrow> valorMatch l \<noteq> None"
  by (simp add: isValor_def valorMatch_def capture_at_None_iff)

lemma push_fields [simp]:
  "numeros (push_numero n acc) = numeros acc @ [n]"
  "valores (push_numero n acc) = valores acc"
  "numeros (push_valor rt v acc) = numeros acc"
  "valores (push_valor rt v acc) = valores acc @ [(v, parseValor rt v)]"
  "numeros (push_descricao d acc) = numeros acc"
  "valores (push_descricao d acc) = valores acc"
  "numeros (addDescricaoShopee f acc) = numeros acc"
  "valores (addDescricaoShopee f acc) = valores acc"
  by (simp_all add: push_numero_def push_valor_def push_descricao_def addDescricaoShopee_def
      Let_def)

lemma classifyShopee_numeros:
  "\<forall>l\<in>set ls. trim l = l \<Longrightarrow>
   numeros (classifyShopee rt ls acc) =
     numeros acc @ filter (\<lambda>l. \<not> isHeaderShopee l \<and> isNumeroShopee l) ls"
  by (induction rt ls acc rule: classifyShopee.induct)
     (auto simp: joinsNext_def split: option.splits list.splits)

lemma classifyShopee_valores:
  "\<forall>l\<in>set ls. trim l = l \<Longrightarrow>
   valores (classifyShopee rt ls acc) =
     valores acc @ map (\<lambda>v. (v, parseValor rt v))
       (List.map_filter valorMatch
          (filter (\<lambda>l. \<not> isHeaderShopee l \<and> \<not> isNumeroShopee l) ls))"
  by (induction rt ls acc rule: classifyShopee.induct)
     (auto simp: joinsNext_def isValor_iff split: option.splits list.splits)

lemma classifyMercadoLivre_numeros:
  "numeros (classifyMercadoLivre rt ls acc) =
     numeros acc @ map stripLeadingZeros
       (filter (\<lambda>l. \<not> isHeaderMercadoLivre l \<and> isNumeroMercadoLivre l) ls)"
  by (induction rt ls acc rule: classifyMercadoLivre.induct)
     (auto split: option.splits)

lemma classifyMercadoLivre_valores:
  "valores (classifyMercadoLivre rt ls acc) =
     valores acc @ map (\<lambda>v. (v, parseValor rt v))
       (List.map_filter valorMatch
          (filter (\<lambda>l. \<not> isHeaderMercadoLivre l \<and> \<not> isNumeroMercadoLivre l) ls))"
  by (induction rt ls acc rule: classifyMercadoLivre.induct)
     (auto simp: split: option.splits)

lemma numerosShopee_eq:
  "numeros (classifyShopee rt (lines_of text) no_lists) = numerosShopee text"
  by (simp add: classifyShopee_numeros lines_of_trimmed numerosShopee_def no_lists_def)

lemma valoresShopee_eq:
  "valores (classifyShopee rt (lines_of text) no_lists) = valoresShopee rt text"
  by (simp add: classifyShopee_valores lines_of_trimmed valoresShopee_def no_lists_def)

lemma numerosMercadoLivre_eq:
  "numeros (classifyMercadoLivre rt (lines_of text) no_lists) = numerosMercadoLivre text"
  by (simp add: classifyMercadoLivre_numeros numerosMercadoLivre_def no_lists_def)

lemma valoresMercadoLivre_eq:
  "valores (classifyMercadoLivre rt (lines_of text) no_lists) = valoresMercadoLivre rt text"
  by (simp add: classifyMercadoLivre_valores valoresMercadoLivre_def no_lists_def)

lemma lines_ABC_10_20:
  "lines_of ABC_10_20 =
     [js ''1234567'', js ''2345678'', js ''3456789'', js ''10,00'', js ''20,00'']"
  "lines_of ABC_10_20_zeros =
     [js ''0001234'', js ''0002345'', js ''0003456'', js ''10,00'', js ''20,00'']"
  by code_simp+

lemma classes_ABC_10_20:
  "isHeaderShopee (js ''1234567'') = False" "isHeaderShopee (js ''2345678'') = False"
  "isHeaderShopee (js ''3456789'') = False" "isHeaderShopee (js ''10,00'') = False"
  "isHeaderShopee (js ''20,00'') = False"
  "isNumeroShopee (js ''1234567'')" "isNumeroShopee (js ''2345678'')"
  "isNumeroShopee (js ''3456789'')"
  "isNumeroShopee (js ''10,00'') = False" "isNumeroShopee (js ''20,00'') = False"
  "valorMatch (js ''10,00'') = Some (js ''10,00'')"
  "valorMatch (js ''20,00'') = Some (js ''20,00'')"
  "isHeaderMercadoLivre (js ''0001234'') = False" "isHeaderMercadoLivre (js ''0002345'') = False"
  "isHeaderMercadoLivre (js ''0003456'') = False" "isHeaderMercadoLivre (js ''10,00'') = False"
  "isHeaderMercadoLivre (js ''20,00'') = False"
  "isNumeroMercadoLivre (js ''0001234'')" "isNumeroMercadoLivre (js ''0002345'')"
  "isNumeroMercadoLivre (js ''0003456'')"
  "isNumeroMercadoLivre (js ''10,00'') = False" "isNumeroMercadoLivre (js ''20,00'') = False"
  "stripLeadingZeros (js ''0001234'') = js ''1234''"
  "stripLeadingZeros (js ''0002345'') = js ''2345''"
  "stripLeadingZeros (js ''0003456'') = js ''3456''"
  "replace_first 44 46 (remove_periods (js ''10,00'')) = js ''10.00''"
  "replace_first 44 46 (remove_periods (js ''20,00'')) = js ''20.00''"
  by code_simp+

lemma numeros_ABC_10_20:
  "numerosShopee ABC_10_20 = [js ''1234567'', js ''2345678'', js ''3456789'']"
  "numerosMercadoLivre ABC_10_20_zeros = [js ''1234'', js ''2345'', js ''3456'']"
  by (simp_all add: numerosShopee_def numerosMercadoLivre_def lines_ABC_10_20 classes_ABC_10_20)

lemma valores_ABC_10_20:
  "valoresShopee rt ABC_10_20 =
     [(js ''10,00'', parseFloat rt (js ''10.00'')), (js ''20,00'', parseFloat rt (js ''20.00''))]"
  "valoresMercadoLivre rt ABC_10_20_zeros =
     [(js ''10,00'', parseFloat rt (js ''10.00'')), (js ''20,00'', parseFloat rt (js ''20.00''))]"
  by (simp_all add: valoresShopee_def valoresMercadoLivre_def lines_ABC_10_20 classes_ABC_10_20
      map_filter_simps parseValor_def)

lemma descricoes_ABC_10_20:
  "descricoes (classifyShopee rt (lines_of ABC_10_20) no_lists) = []"
  "descricoes (classifyMercadoLivre rt (lines_of ABC_10_20_zeros) no_lists) = []"
  by (simp_all add: lines_ABC_10_20 classes_ABC_10_20 no_lists_def push_numero_def push_valor_def)

lemma rows_nth:
  "n \<le> length vs \<Longrightarrow> n \<le> length ns \<Longrightarrow>
   length (map (rowAt ds ns vs) [0..<n]) = n \<and>
   (\<forall>i<n. map (rowAt ds ns vs) [0..<n] ! i =
      \<lparr> nf = Some (ns ! i), valor = snd (vs ! i), valorFormatado = fst (vs ! i),
        descricao = (if i < length ds then ds ! i else Servico), tipo = TipoAbsent \<rparr>)"
  by (simp add: rowAt_def)

text \<open>
  C2. For Shopee and Mercado Livre the classified identifiers and amounts are the
  identifier lines and the amounts of the text in text order; when both lists are
  non-empty the parser returns as many records as the shorter list has, the \<open>i\<close>-th
  record made of the \<open>i\<close>-th identifier, the \<open>i\<close>-th amount and the \<open>i\<close>-th
  description, or the placeholder when the descriptions run short. Three identifiers
  and the amounts \<open>10,00\<close> and \<open>20,00\<close> give two records, the first two
  identifiers paired with the two amounts.
\<close>

theorem positional_pairing:
  "numeros (classifyShopee rt (lines_of text) no_lists) = numerosShopee text \<and>
   valores (classifyShopee rt (lines_of text) no_lists) = valoresShopee rt text \<and>
   (numerosShopee text \<noteq> [] \<and> valoresShopee rt text \<noteq> [] \<longrightarrow>
    (\<exists>rows. parseTableTextShopee rt text = Inr rows \<and>
       length rows = min (length (numerosShopee text)) (length (valoresShopee rt text)) \<and>
       (\<forall>i<length rows. rows ! i =
          \<lparr> nf = Some (numerosShopee text ! i),
            valor = snd (valoresShopee rt text ! i),
            valorFormatado = fst (valoresShopee rt text ! i),
            descricao =
              (if i < length (descricoes (classifyShopee rt (lines_of text) no_lists))
               then descricoes (classifyShopee rt (lines_of text) no_lists) ! i
               else Servico),
            tipo = TipoAbsent \<rparr>))) \<and>
   numeros (classifyMercadoLivre rt (lines_of text) no_lists) = numerosMercadoLivre text \<and>
   valores (classifyMercadoLivre rt (lines_of text) no_lists) = valoresMercadoLivre rt text \<and>
   (numerosMercadoLivre text \<noteq> [] \<and> valoresMercadoLivre rt text \<noteq> [] \<longrightarrow>
    (\<exists>rows. parseTableTextMercadoLivre rt text = Inr rows \<and>
       length rows =
         min (length (numerosMercadoLivre text)) (length (valoresMercadoLivre rt text)) \<and>
       (\<forall>i<length rows. rows ! i =
          \<lparr> nf = Some (numerosMercadoLivre text ! i),
            valor = snd (valoresMercadoLivre rt text ! i),
            valorFormatado = fst (valoresMercadoLivre rt text ! i),
            descricao =
              (if i < length (descricoes (classifyMercadoLivre rt (lines_of text) no_lists))
               then descricoes (classifyMercadoLivre rt (lines_of text) no_lists) ! i
               else Servico),
            tipo = TipoAbsent \<rparr>))) \<and>
   parseTableTextShopee rt ABC_10_20 =
     Inr [\<lparr> nf = Some (js ''1234567''), valor = parseFloat rt (js ''10.00''),
            valorFormatado = js ''10,00'', descricao = Servico, tipo = TipoAbsent \<rparr>,
          \<lparr> nf = Some (js ''2345678''), valor = parseFloat rt (js ''20.00''),
            valorFormatado = js ''20,00'', descricao = Servico, tipo = TipoAbsent \<rparr>] \<and>
   parseTableTextMercadoLivre rt ABC_10_20_zeros =
     Inr [\<lparr> nf = Some (js ''1234''), valor = parseFloat rt (js ''10.00''),
            valorFormatado = js ''10,00'', descricao = Servico, tipo = TipoAbsent \<rparr>,
          \<lparr> nf = Some (js ''2345''), valor = parseFloat rt (js ''20.00''),
            valorFormatado = js ''20,00'', descricao = Servico, tipo = TipoAbsent \<rparr>]"
proof -
  have s: "numerosShopee text \<noteq> [] \<and> valoresShopee rt text \<noteq> [] \<longrightarrow>
    (\<exists>rows. parseTableTextShopee rt text = Inr rows \<and>
       length rows = min (length (numerosShopee text)) (length (valoresShopee rt text)) \<and>
       (\<forall>i<length rows. rows ! i =
          \<lparr> nf = Some (numerosShopee text ! i),
            valor = snd (valoresShopee rt text ! i),
            valorFormatado = fst (valoresShopee rt text ! i),
            descricao =
              (if i < length (descricoes (classifyShopee rt (lines_of text) no_lists))
               then descricoes (classifyShopee rt (lines_of text) no_lists) ! i
               else Servico),
            tipo = TipoAbsent \<rparr>))"
    using parseTableTextShopee_rows [of rt "text"]
      rows_nth [of "min (length (numerosShopee text)) (length (valoresShopee rt text))"
        "valoresShopee rt text" "numerosShopee text"
        "descricoes (classifyShopee rt (lines_of text) no_lists)"]
    by (simp add: numerosShopee_eq valoresShopee_eq)
  have m: "numerosMercadoLivre text \<noteq> [] \<and> valoresMercadoLivre rt text \<noteq> [] \<longrightarrow>
    (\<exists>rows. parseTableTextMercadoLivre rt text = Inr rows \<and>
       length rows =
         min (length (numerosMercadoLivre text)) (length (valoresMercadoLivre rt text)) \<and>
       (\<forall>i<length rows. rows ! i =
          \<lparr> nf = Some (numerosMercadoLivre text ! i),
            valor = snd (valoresMercadoLivre rt text ! i),
            valorFormatado = fst (valoresMercadoLivre rt text ! i),
            descricao =
              (if i < length (descricoes (classifyMercadoLivre rt (lines_of text) no_lists))
               then descricoes (classifyMercadoLivre rt (lines_of text) no_lists) ! i
               else Servico),
            tipo = TipoAbsent \<rparr>))"
    using parseTableTextMercadoLivre_rows [of rt "text"]
      rows_nth [of "min (length (numerosMercadoLivre text)) (length (valoresMercadoLivre rt text))"
        "valoresMercadoLivre rt text" "numerosMercadoLivre text"
        "descricoes (classifyMercadoLivre rt (lines_of text) no_lists)"]
    by (simp add: numerosMercadoLivre_eq valoresMercadoLivre_eq)
  have upt2: "[0..<2] = [0, Suc 0]" by (simp add: upt_rec)
  have es: "parseTableTextShopee rt ABC_10_20 =
     Inr [\<lparr> nf = Some (js ''1234567''), valor = parseFloat rt (js ''10.00''),
            valorFormatado = js ''10,00'', descricao = Servico, tipo = TipoAbsent \<rparr>,
          \<lparr> nf = Some (js ''2345678''), valor = parseFloat rt (js ''20.00''),
            valorFormatado = js ''20,00'', descricao = Servico, tipo = TipoAbsent \<rparr>]"
    using parseTableTextShopee_rows [of rt ABC_10_20]
    by (simp add: numerosShopee_eq valoresShopee_eq numeros_ABC_10_20 valores_ABC_10_20
        descricoes_ABC_10_20 rowAt_def upt2)
  have em: "parseTableTextMercadoLivre rt ABC_10_20_zeros =
     Inr [\<lparr> nf = Some (js ''1234''), valor = parseFloat rt (js ''10.00''),
            valorFormatado = js ''10,00'', descricao = Servico, tipo = TipoAbsent \<rparr>,
          \<lparr> nf = Some (js ''2345''), valor = parseFloat rt (js ''20.00''),
            valorFormatado = js ''20,00'', descricao = Servico, tipo = TipoAbsent \<rparr>]"
    using parseTableTextMercadoLivre_rows [of rt ABC_10_20_zeros]
    by (simp add: numerosMercadoLivre_eq valoresMercadoLivre_eq numeros_ABC_10_20
        valores_ABC_10_20 descricoes_ABC_10_20 rowAt_def upt2)
  from s m es em show ?thesis
    by (simp only: numerosShopee_eq valoresShopee_eq numerosMercadoLivre_eq
        valoresMercadoLivre_eq simp_thms)
qed

theorem positional_pairing_witness:
  "numerosShopee ABC_10_20 \<noteq> [] \<and> valoresShopee decimal_runtime ABC_10_20 \<noteq> [] \<and>
   numerosMercadoLivre ABC_10_20_zeros \<noteq> [] \<and>
   valoresMercadoLivre decimal_runtime ABC_10_20_zeros \<noteq> [] \<and>
   (\<exists>rows. parseTableTextShopee decimal_runtime ABC_10_20 = Inr rows \<and> length rows = 2 \<and>
      nf (rows ! 1) = Some (js ''2345678'') \<and> valor (rows ! 1) = 2000) \<and>
   (\<exists>rows. parseTableTextMercadoLivre decimal_runtime ABC_10_20_zeros = Inr rows \<and>
      length rows = 2 \<and> nf (rows ! 1) = Some (js ''2345'') \<and> valor (rows ! 1) = 2000)"
proof -
  have a: "numerosShopee ABC_10_20 = [js ''1234567'', js ''2345678'', js ''3456789'']"
    and b: "valoresShopee decimal_runtime ABC_10_20 = [(js ''10,00'', 1000), (js ''20,00'', 2000)]"
    and c: "numerosMercadoLivre ABC_10_20_zeros = [js ''1234'', js ''2345'', js ''3456'']"
    and d: "valoresMercadoLivre decimal_runtime ABC_10_20_zeros =
              [(js ''10,00'', 1000), (js ''20,00'', 2000)]"
    by code_simp+
  from positional_pairing [of decimal_runtime ABC_10_20]
    positional_pairing [of decimal_runtime ABC_10_20_zeros]
  show ?thesis
    unfolding a b c d by (auto simp: less_Suc_eq)
qed

section \<open>Properties of the matcher\<close>

declare match_all.simps [simp del]

lemma findMatchingRow_other:
  "marketplace \<noteq> js ''Magalu'' \<Longrightarrow>
   findMatchingRow rt h pdfText tableData fileName marketplace =
     (case byFileName h tableData (fileNameNumbers fileName) of
        Some row \<Rightarrow> (Some row, h)
      | None \<Rightarrow>
     (case byNumeroValor rt h (toUpperCase rt (squeeze_spaces pdfText)) tableData of
        Some row \<Rightarrow> (Some row, h)
      | None \<Rightarrow>
     (case byValor rt h (toUpperCase rt (squeeze_spaces pdfText)) tableData of
        Some row \<Rightarrow> (Some row, h)
      | None \<Rightarrow>
     (case byNumero h (toUpperCase rt (squeeze_spaces pdfText)) tableData of
        Some row \<Rightarrow> (Some row, h)
      | None \<Rightarrow> (None, h)))))"
  by (simp add: findMatchingRow_def Let_def)

lemma byFileName_find:
  "byFileName h tableData nums =
     (case List.find (\<lambda>g. \<exists>row\<in>set tableData. nf (h ! row) = Some g) nums of
        None \<Rightarrow> None
      | Some g \<Rightarrow> List.find (\<lambda>row. nf (h ! row) = Some g) tableData)"
proof (induction nums)
  case Nil
  then show ?case by simp
next
  case (Cons g nums)
  show ?case
  proof (cases "List.find (\<lambda>row. nf (h ! row) = Some g) tableData")
    case None
    then have "\<not> (\<exists>row\<in>set tableData. nf (h ! row) = Some g)"
      by (simp add: find_None_iff)
    with None Cons show ?thesis by simp
  next
    case (Some r)
    then have "\<exists>row\<in>set tableData. nf (h ! row) = Some g"
      by (auto simp: find_Some_iff)
    with Some show ?thesis by simp
  qed
qed

lemma run_d79:
  "run [Q 7 (Some 9) is_digit] s =
     map (\<lambda>k. drop k s) (rev [7 ..< Suc (min 9 (length (takeWhile is_digit s)))])"
  by (simp add: counts_def)

lemma fileNameNumbers_Nil: "fileNameNumbers [] = []"
  by (simp add: fileNameNumbers_def match_all.simps [of _ "[]"] counts_def)

lemma fileNameNumbers_match:
  assumes "7 \<le> length (takeWhile is_digit s)"
  shows "fileNameNumbers s =
           take (min 9 (length (takeWhile is_digit s))) s #
           fileNameNumbers (drop (min 9 (length (takeWhile is_digit s))) s)"
proof -
  define m where "m = min 9 (length (takeWhile is_digit s))"
  have m7: "7 \<le> m" using assms by (simp add: m_def)
  have mle: "m \<le> length s"
    using length_takeWhile_le [of is_digit s] by (simp add: m_def)
  have "[7 ..< Suc m] = [7 ..< m] @ [m]" using m7 by simp
  then have r: "run [Q 7 (Some 9) is_digit] s = drop m s # map (\<lambda>k. drop k s) (rev [7 ..< m])"
    unfolding run_d79 m_def [symmetric] by simp
  have "length (drop m s) < length s" using m7 mle by simp
  moreover have "length s - length (drop m s) = m" using mle by simp
  ultimately have "match_all [Q 7 (Some 9) is_digit] s =
                   take m s # match_all [Q 7 (Some 9) is_digit] (drop m s)"
    by (subst match_all.simps) (simp only: r list.case if_True)
  then show ?thesis by (simp add: fileNameNumbers_def m_def)
qed

lemma fileNameNumbers_skip:
  assumes "length (takeWhile is_digit (c # cs)) < 7"
  shows "fileNameNumbers (c # cs) = fileNameNumbers cs"
proof -
  from assms have "min 9 (length (takeWhile is_digit (c # cs))) < 7" by simp
  then have "run [Q 7 (Some 9) is_digit] (c # cs) = []"
    unfolding run_d79 by simp
  then have "match_all [Q 7 (Some 9) is_digit] (c # cs) = match_all [Q 7 (Some 9) is_digit] cs"
    by (subst match_all.simps) (simp only: list.case)
  then show ?thesis by (simp add: fileNameNumbers_def)
qed

lemma fileNameNumbers_groups:
  "g \<in> set (fileNameNumbers s) \<Longrightarrow> 7 \<le> length g \<and> length g \<le> 9 \<and> (\<forall>c\<in>set g. is_digit c)"
proof (induction s rule: length_induct)
  case (1 s)
  show ?case
  proof (cases s)
    case Nil
    with 1(2) show ?thesis by (simp add: fileNameNumbers_Nil)
  next
    case (Cons c cs)
    show ?thesis
    proof (cases "7 \<le> length (takeWhile is_digit s)")
      case True
      define m where "m = min 9 (length (takeWhile is_digit s))"
      have m7: "7 \<le> m" and m9: "m \<le> 9" and mt: "m \<le> length (takeWhile is_digit s)"
        using True by (simp_all add: m_def)
      have mle: "m \<le> length s"
        using length_takeWhile_le [of is_digit s] mt by simp
      from fileNameNumbers_match [OF True] 1(2)
      have "g = take m s \<or> g \<in> set (fileNameNumbers (drop m s))"
        by (auto simp: m_def)
      then show ?thesis
      proof
        assume g: "g = take m s"
        have "take m s = take m (takeWhile is_digit s)"
          using mt by (metis takeWhile_dropWhile_id take_append diff_is_0_eq take_0 append_Nil2)
        then have "set g \<subseteq> set (takeWhile is_digit s)"
          using g by (metis set_take_subset)
        then have "\<forall>c\<in>set g. is_digit c" by (auto dest: set_takeWhileD)
        then show ?thesis using g m7 m9 mle by simp
      next
        assume "g \<in> set (fileNameNumbers (drop m s))"
        moreover have "length (drop m s) < length s" using m7 mle by simp
        ultimately show ?thesis using 1(1) by blast
      qed
    next
      case False
      then have "fileNameNumbers s = fileNameNumbers cs"
        using fileNameNumbers_skip [of c cs] Cons by simp
      with 1(2) Cons have "g \<in> set (fileNameNumbers cs)" by simp
      moreover have "length cs < length s" using Cons by simp
      ultimately show ?thesis using 1(1) by blast
    qed
  qed
qed


lemma fileNameNumbers_first_run:
  assumes pre: "\<forall>c\<in>set pre. \<not> is_digit c"
    and g: "\<forall>c\<in>set g. is_digit c" "7 \<le> length g" "length g \<le> 9"
    and post: "post = [] \<or> \<not> is_digit (hd post)"
  shows "fileNameNumbers (pre @ g @ post) = g # fileNameNumbers post"
  using pre
proof (induction pre)
  case Nil
  have tw: "takeWhile is_digit (g @ post) = g"
    using g(1) post by (cases post) (simp_all add: takeWhile_tail)
  have "7 \<le> length (takeWhile is_digit (g @ post))" using g(2) by (simp add: tw)
  from fileNameNumbers_match [OF this] show ?case
    using g(3) by (simp add: tw min_def)
next
  case (Cons c pre)
  then have "takeWhile is_digit ((c # pre) @ g @ post) = []" by simp
  then have "length (takeWhile is_digit (c # pre @ g @ post)) < 7" by simp
  from fileNameNumbers_skip [OF this] Cons show ?case by simp
qed

lemma valorFound_iff: "valorFound rt N row \<longleftrightarrow> amountRendered rt N row"
  by (simp add: valorFound_def valorFormats_def amountRendered_def)

lemma nfFound_truthy: "nfFound N row \<Longrightarrow> nf row \<noteq> None \<and> nf row \<noteq> Some []"
  by (auto simp: nfFound_def split: option.splits)

text \<open>
  C1, as the code has it. For a marketplace other than Magalu the file name is tried
  first: when one of the digit groups that \<open>/\d{7,9}/g\<close> takes from the file name, from
  left to right and without overlap, is the identifier of a record, the matcher returns
  the first record with the earliest such group as identifier, whatever the PDF text
  holds. A run of 7 to 9 digits that stands between non-digits, with no digit before
  it, is such a group.
\<close>

theorem filename_match_wins:
  assumes "marketplace \<noteq> js ''Magalu''"
  shows "(List.find (\<lambda>g. \<exists>row\<in>set tableData. nf (h ! row) = Some g)
            (fileNameNumbers fileName) = Some g \<longrightarrow>
          (\<exists>i<length tableData.
             findMatchingRow rt h pdfText tableData fileName marketplace =
               (Some (tableData ! i), h) \<and>
             nf (h ! (tableData ! i)) = Some g \<and>
             (\<forall>j<i. nf (h ! (tableData ! j)) \<noteq> Some g))) \<and>
         (fileName = pre @ g @ post \<and> (\<forall>c\<in>set pre. \<not> is_digit c) \<and>
          (\<forall>c\<in>set g. is_digit c) \<and> 7 \<le> length g \<and> length g \<le> 9 \<and>
          (post = [] \<or> \<not> is_digit (hd post)) \<and>
          (\<exists>row\<in>set tableData. nf (h ! row) = Some g) \<longrightarrow>
          (\<exists>i<length tableData.
             findMatchingRow rt h pdfText tableData fileName marketplace =
               (Some (tableData ! i), h) \<and>
             nf (h ! (tableData ! i)) = Some g \<and>
             (\<forall>j<i. nf (h ! (tableData ! j)) \<noteq> Some g)))"
proof -
  have main: "\<exists>i<length tableData.
             findMatchingRow rt h pdfText tableData fileName marketplace =
               (Some (tableData ! i), h) \<and>
             nf (h ! (tableData ! i)) = Some g \<and>
             (\<forall>j<i. nf (h ! (tableData ! j)) \<noteq> Some g)"
    if f: "List.find (\<lambda>g. \<exists>row\<in>set tableData. nf (h ! row) = Some g)
            (fileNameNumbers fileName) = Some g" for g
  proof -
    from f have "\<exists>row\<in>set tableData. nf (h ! row) = Some g"
      by (auto simp: find_Some_iff)
    then obtain r where r: "List.find (\<lambda>row. nf (h ! row) = Some g) tableData = Some r"
      by (cases "List.find (\<lambda>row. nf (h ! row) = Some g) tableData")
         (auto simp: find_None_iff)
    with f have "byFileName h tableData (fileNameNumbers fileName) = Some r"
      by (simp add: byFileName_find)
    with assms have "findMatchingRow rt h pdfText tableData fileName marketplace = (Some r, h)"
      by (simp add: findMatchingRow_other)
    with r show ?thesis by (auto simp: find_Some_iff)
  qed
  have "List.find (\<lambda>g. \<exists>row\<in>set tableData. nf (h ! row) = Some g)
          (fileNameNumbers fileName) = Some g"
    if "fileName = pre @ g @ post" "\<forall>c\<in>set pre. \<not> is_digit c" "\<forall>c\<in>set g. is_digit c"
      "7 \<le> length g" "length g \<le> 9" "post = [] \<or> \<not> is_digit (hd post)"
      "\<exists>row\<in>set tableData. nf (h ! row) = Some g"
    using that fileNameNumbers_first_run [of pre g post] by simp
  with main show ?thesis by blast
qed

lemma two_rows_nf:
  "nf (two_rows ! 0) = Some (js ''1234567'')" "nf (two_rows ! 1) = Some (js ''7654321'')"
  "nf (two_rows ! Suc 0) = Some (js ''7654321'')"
  by (simp_all add: two_rows_def)

theorem filename_match_wins_witness:
  "js ''Shopee'' \<noteq> js ''Magalu'' \<and>
   fileNameNumbers (js ''NF 7654321 de 2024.pdf'') = [js ''7654321''] \<and>
   js ''NF 7654321 de 2024.pdf'' = js ''NF '' @ js ''7654321'' @ js '' de 2024.pdf'' \<and>
   list_all (\<lambda>c. \<not> is_digit c) (js ''NF '') \<and> list_all is_digit (js ''7654321'') \<and>
   7 \<le> length (js ''7654321'') \<and> length (js ''7654321'') \<le> 9 \<and>
   \<not> is_digit (hd (js '' de 2024.pdf'')) \<and>
   nf (two_rows ! 1) = Some (js ''7654321'') \<and>
   findMatchingRow decimal_runtime two_rows (js ''NF 1234567 total R$ 10,50'') [0, 1]
     (js ''NF 7654321 de 2024.pdf'') (js ''Shopee'') = (Some 1, two_rows)"
proof -
  have a: "js ''Shopee'' \<noteq> js ''Magalu''" by (simp add: js_def)
  have b: "List.find (\<lambda>g. \<exists>row\<in>set [0, 1]. nf (two_rows ! row) = Some g)
     (fileNameNumbers (js ''NF 7654321 de 2024.pdf'')) = Some (js ''7654321'')"
    by code_simp
  have c: "js ''1234567'' \<noteq> js ''7654321''" by (simp add: js_def)
  have d: "js ''NF 7654321 de 2024.pdf'' = js ''NF '' @ js ''7654321'' @ js '' de 2024.pdf''"
    "\<forall>c\<in>set (js ''NF ''). \<not> is_digit c" "\<forall>c\<in>set (js ''7654321''). is_digit c"
    "7 \<le> length (js ''7654321'')" "length (js ''7654321'') \<le> 9"
    "\<not> is_digit (hd (js '' de 2024.pdf''))"
    "\<exists>row\<in>set [0, 1]. nf (two_rows ! row) = Some (js ''7654321'')"
    by code_simp+
  from filename_match_wins [OF a, of "[0, 1]" two_rows "js ''NF 7654321 de 2024.pdf''"
      "js ''7654321''" decimal_runtime "js ''NF 1234567 total R$ 10,50''" "js ''NF ''"
      "js '' de 2024.pdf''"] d
  obtain i where i: "i < length [0, 1::nat]"
    "findMatchingRow decimal_runtime two_rows (js ''NF 1234567 total R$ 10,50'') [0, 1]
       (js ''NF 7654321 de 2024.pdf'') (js ''Shopee'') = (Some ([0, 1] ! i), two_rows)"
    "nf (two_rows ! ([0, 1] ! i)) = Some (js ''7654321'')"
    by blast
  from i(1) have "i = 0 \<or> i = 1" by auto
  with i(3) c have "i = 1" by (auto simp: two_rows_nf)
  moreover have "fileNameNumbers (js ''NF 7654321 de 2024.pdf'') = [js ''7654321'']"
    by code_simp
  ultimately show ?thesis using i(2) a d by (simp add: list_all_iff two_rows_nf)
qed

text \<open>
  C1 as the claim states it fails: \<open>1234567\<close> is a 7-digit substring of the file name
  \<open>12345678.pdf\<close> and the identifier of a record, but the only group taken from the file
  name is \<open>12345678\<close>, and with an empty PDF text the matcher returns \<open>null\<close>.
\<close>

theorem filename_substring_counterexample:
  "sublist (js ''1234567'') (js ''12345678.pdf'') \<and>
   length (js ''1234567'') = 7 \<and> list_all is_digit (js ''1234567'') \<and>
   nf (two_rows ! 0) = Some (js ''1234567'') \<and>
   fileNameNumbers (js ''12345678.pdf'') = [js ''12345678''] \<and>
   findMatchingRow decimal_runtime two_rows [] [0, 1] (js ''12345678.pdf'')
     (js ''Shopee'') = (None, two_rows)"
  by code_simp

text \<open>
  C7. For a marketplace other than Magalu, when neither the file name nor identifier
  and amount together give a record, and one of the five renderings of some record's
  amount occurs in the normalized PDF text, the matcher returns the first such record,
  not \<open>null\<close>.
\<close>

theorem amount_only_fallback:
  assumes "marketplace \<noteq> js ''Magalu''"
    and "byFileName h tableData (fileNameNumbers fileName) = None"
    and "byNumeroValor rt h (toUpperCase rt (squeeze_spaces pdfText)) tableData = None"
    and "\<exists>row\<in>set tableData.
           amountRendered rt (toUpperCase rt (squeeze_spaces pdfText)) (h ! row)"
  shows "\<exists>i<length tableData.
           findMatchingRow rt h pdfText tableData fileName marketplace =
             (Some (tableData ! i), h) \<and>
           amountRendered rt (toUpperCase rt (squeeze_spaces pdfText)) (h ! (tableData ! i)) \<and>
           (\<forall>j<i. \<not> amountRendered rt (toUpperCase rt (squeeze_spaces pdfText))
                      (h ! (tableData ! j)))"
proof -
  define N where "N = toUpperCase rt (squeeze_spaces pdfText)"
  from assms(4) obtain r where r: "byValor rt h N tableData = Some r"
    unfolding N_def [symmetric] byValor_def
    by (cases "List.find (\<lambda>row. valorFound rt N (h ! row)) tableData")
       (auto simp: find_None_iff valorFound_iff)
  with assms(1-3) have "findMatchingRow rt h pdfText tableData fileName marketplace = (Some r, h)"
    by (simp add: findMatchingRow_other N_def)
  with r show ?thesis
    unfolding N_def [symmetric] byValor_def
    by (auto simp: find_Some_iff valorFound_iff)
qed

theorem amount_only_fallback_witness:
  "js ''Shopee'' \<noteq> js ''Magalu'' \<and>
   byFileName two_rows [0, 1] (fileNameNumbers (js ''nota.pdf'')) = None \<and>
   byNumeroValor decimal_runtime two_rows
     (toUpperCase decimal_runtime (squeeze_spaces (js ''valor total R$ 20,05''))) [0, 1] = None \<and>
   amountRendered decimal_runtime
     (toUpperCase decimal_runtime (squeeze_spaces (js ''valor total R$ 20,05''))) (two_rows ! 1) \<and>
   findMatchingRow decimal_runtime two_rows (js ''valor total R$ 20,05'') [0, 1]
     (js ''nota.pdf'') (js ''Shopee'') = (Some 1, two_rows)"
proof -
  have a: "js ''Shopee'' \<noteq> js ''Magalu''" by (simp add: js_def)
  have b: "byFileName two_rows [0, 1] (fileNameNumbers (js ''nota.pdf'')) = None"
    by code_simp
  have c: "byNumeroValor decimal_runtime two_rows
     (toUpperCase decimal_runtime (squeeze_spaces (js ''valor total R$ 20,05''))) [0, 1] = None"
    by code_simp
  have d: "amountRendered decimal_runtime
     (toUpperCase decimal_runtime (squeeze_spaces (js ''valor total R$ 20,05''))) (two_rows ! 1)"
    by code_simp
  have e: "\<not> amountRendered decimal_runtime
     (toUpperCase decimal_runtime (squeeze_spaces (js ''valor total R$ 20,05''))) (two_rows ! 0)"
    by code_simp
  have d': "\<exists>row\<in>set [0, 1]. amountRendered decimal_runtime
     (toUpperCase decimal_runtime (squeeze_spaces (js ''valor total R$ 20,05''))) (two_rows ! row)"
    using d by simp
  from amount_only_fallback [OF a b c d'] a b c d e
  show ?thesis by (auto simp: less_Suc_eq)
qed

lemma byFileName_Some:
  assumes "byFileName h tableData nums = Some row"
  shows "\<exists>g\<in>set nums. nf (h ! row) = Some g"
proof -
  from assms obtain g where g: "List.find (\<lambda>g. \<exists>row\<in>set tableData. nf (h ! row) = Some g) nums = Some g"
    and r: "List.find (\<lambda>row. nf (h ! row) = Some g) tableData = Some row"
    by (auto simp: byFileName_find split: option.splits)
  from g have "g \<in> set nums" by (auto simp: find_Some_iff)
  moreover from r have "nf (h ! row) = Some g" by (auto simp: find_Some_iff)
  ultimately show ?thesis by blast
qed

lemma zeros_table_eval:
  "lines_of zeros_table = [js ''000'', js ''10,00'']"
  "isHeaderMercadoLivre (js ''000'') = False" "isNumeroMercadoLivre (js ''000'')"
  "stripLeadingZeros (js ''000'') = []"
  by code_simp+

lemma zeros_table_lists:
  "numerosMercadoLivre zeros_table = [Nil]"
  "valoresMercadoLivre rt zeros_table = [(js ''10,00'', parseFloat rt (js ''10.00''))]"
  "descricoes (classifyMercadoLivre rt (lines_of zeros_table) no_lists) = []"
  by (simp_all add: numerosMercadoLivre_def valoresMercadoLivre_def zeros_table_eval
      classes_ABC_10_20 map_filter_simps parseValor_def no_lists_def push_numero_def
      push_valor_def)

text \<open>
  C9. For a marketplace other than Magalu, neither the identifier-and-amount loop nor
  the identifier-only loop returns a record whose identifier is \<open>null\<close> or empty, and
  when the matcher returns such a record it is the one the amount-only loop found, the
  file name and the identifier-and-amount loop having found none. For Mercado Livre
  \<open>parseTableText\<close> makes a record with the empty identifier from the line \<open>000\<close>.
\<close>

theorem falsy_identifier_only_by_amount:
  assumes "marketplace \<noteq> js ''Magalu''"
  shows "(byNumeroValor rt h N tableData = Some row \<longrightarrow>
            nf (h ! row) \<noteq> None \<and> nf (h ! row) \<noteq> Some []) \<and>
         (byNumero h N tableData = Some row \<longrightarrow>
            nf (h ! row) \<noteq> None \<and> nf (h ! row) \<noteq> Some []) \<and>
         (findMatchingRow rt h pdfText tableData fileName marketplace = (Some row, h') \<and>
          (nf (h ! row) = None \<or> nf (h ! row) = Some []) \<longrightarrow>
            byFileName h tableData (fileNameNumbers fileName) = None \<and>
            byNumeroValor rt h (toUpperCase rt (squeeze_spaces pdfText)) tableData = None \<and>
            byValor rt h (toUpperCase rt (squeeze_spaces pdfText)) tableData = Some row) \<and>
         parseTableText rt zeros_table (js ''Mercado Livre'') =
           Inr [\<lparr> nf = Some [], valor = parseFloat rt (js ''10.00''),
                  valorFormatado = js ''10,00'', descricao = Servico, tipo = TipoAbsent \<rparr>]"
proof -
  have nv: "nf (h ! r) \<noteq> None \<and> nf (h ! r) \<noteq> Some []"
    if "byNumeroValor rt h M tableData = Some r" for r M
    using that nfFound_truthy [of M "h ! r"] by (auto simp: byNumeroValor_def find_Some_iff)
  have n: "nf (h ! r) \<noteq> None \<and> nf (h ! r) \<noteq> Some []"
    if "byNumero h M tableData = Some r" for r M
    using that nfFound_truthy [of M "h ! r"] by (auto simp: byNumero_def find_Some_iff)
  have f: "nf (h ! r) \<noteq> None \<and> nf (h ! r) \<noteq> Some []"
    if "byFileName h tableData (fileNameNumbers fileName) = Some r" for r
  proof -
    from byFileName_Some [OF that] obtain g where
      "g \<in> set (fileNameNumbers fileName)" "nf (h ! r) = Some g" by blast
    with fileNameNumbers_groups [of g fileName] show ?thesis by auto
  qed
  have c: "byFileName h tableData (fileNameNumbers fileName) = None \<and>
           byNumeroValor rt h (toUpperCase rt (squeeze_spaces pdfText)) tableData = None \<and>
           byValor rt h (toUpperCase rt (squeeze_spaces pdfText)) tableData = Some row"
    if "findMatchingRow rt h pdfText tableData fileName marketplace = (Some row, h')"
      "nf (h ! row) = None \<or> nf (h ! row) = Some []"
  proof -
    let ?N = "toUpperCase rt (squeeze_spaces pdfText)"
    note eq = that(1) [unfolded findMatchingRow_other [OF assms]]
    show ?thesis
    proof (cases "byFileName h tableData (fileNameNumbers fileName)")
      case (Some r)
      with eq have "r = row" by simp
      with Some f [of r] that(2) show ?thesis by auto
    next
      case None
      note fn = this
      show ?thesis
      proof (cases "byNumeroValor rt h ?N tableData")
        case (Some r)
        with eq fn have "r = row" by simp
        with Some nv [of ?N r] that(2) show ?thesis by auto
      next
        case None
        note nvn = this
        show ?thesis
        proof (cases "byValor rt h ?N tableData")
          case (Some r)
          with eq fn nvn have "r = row" by simp
          with Some fn nvn show ?thesis by simp
        next
          case None
          note vn = this
          show ?thesis
          proof (cases "byNumero h ?N tableData")
            case (Some r)
            with eq fn nvn vn have "r = row" by simp
            with Some n [of ?N r] that(2) show ?thesis by auto
          next
            case None
            with eq fn nvn vn show ?thesis by simp
          qed
        qed
      qed
    qed
  qed
  have upt1: "[0..<Suc 0] = [0]" by simp
  have "parseTableTextMercadoLivre rt zeros_table =
           Inr [\<lparr> nf = Some [], valor = parseFloat rt (js ''10.00''),
                  valorFormatado = js ''10,00'', descricao = Servico, tipo = TipoAbsent \<rparr>]"
    using parseTableTextMercadoLivre_rows [of rt zeros_table]
    by (simp add: numerosMercadoLivre_eq valoresMercadoLivre_eq zeros_table_lists rowAt_def)
  moreover have "js ''Mercado Livre'' \<noteq> js ''Shopee''" by (simp add: js_def)
  ultimately have p: "parseTableText rt zeros_table (js ''Mercado Livre'') =
           Inr [\<lparr> nf = Some [], valor = parseFloat rt (js ''10.00''),
                  valorFormatado = js ''10,00'', descricao = Servico, tipo = TipoAbsent \<rparr>]"
    by (simp add: parseTableText_def)
  from nv n c p show ?thesis by blast
qed

theorem falsy_identifier_only_by_amount_witness:
  "js ''Shopee'' \<noteq> js ''Magalu'' \<and>
   byNumeroValor decimal_runtime two_rows (js ''NF 1234567 R$ 10,50'') [0, 1] = Some 0 \<and>
   byNumero two_rows (js ''NF 7654321'') [0, 1] = Some 1 \<and>
   findMatchingRow decimal_runtime no_nf_rows (js ''total 20,05'') [0, 1] (js ''nota.pdf'')
     (js ''Shopee'') = (Some 1, no_nf_rows) \<and>
   nf (no_nf_rows ! 1) = None \<and>
   nf (two_rows ! 0) \<noteq> None \<and> nf (two_rows ! 1) \<noteq> Some [] \<and>
   byValor decimal_runtime no_nf_rows
     (toUpperCase decimal_runtime (squeeze_spaces (js ''total 20,05''))) [0, 1] = Some 1"
proof -
  have a: "js ''Shopee'' \<noteq> js ''Magalu''" by (simp add: js_def)
  have b: "byNumeroValor decimal_runtime two_rows (js ''NF 1234567 R$ 10,50'') [0, 1] = Some 0"
    by code_simp
  have c: "byNumero two_rows (js ''NF 7654321'') [0, 1] = Some 1"
    by code_simp
  have d: "findMatchingRow decimal_runtime no_nf_rows (js ''total 20,05'') [0, 1]
             (js ''nota.pdf'') (js ''Shopee'') = (Some 1, no_nf_rows)"
    by code_simp
  have e: "nf (no_nf_rows ! 1) = None" by (simp add: no_nf_rows_def)
  from falsy_identifier_only_by_amount [OF a, of decimal_runtime two_rows
      "js ''NF 1234567 R$ 10,50''" "[0, 1]" 0] b
  have 1: "nf (two_rows ! 0) \<noteq> None" by blast
  from falsy_identifier_only_by_amount [OF a, of decimal_runtime two_rows
      "js ''NF 7654321''" "[0, 1]" 1] c
  have 2: "nf (two_rows ! 1) \<noteq> Some []" by blast
  from falsy_identifier_only_by_amount [OF a, of decimal_runtime no_nf_rows _ "[0, 1]" 1
      "js ''total 20,05''" "js ''nota.pdf''" no_nf_rows] d e
  have 3: "byValor decimal_runtime no_nf_rows
     (toUpperCase decimal_runtime (squeeze_spaces (js ''total 20,05''))) [0, 1] = Some 1"
    by blast
  from a b c d e 1 2 3 show ?thesis by blast
qed

lemma loopMagalu_find:
  "loopMagalu rt h pdfText N tableData =
     (case List.find (\<lambda>row. valorFoundMagalu rt N (h ! row)) tableData of
        None \<Rightarrow> (None, h)
      | Some src \<Rightarrow> (Some (length h), h @ [updatedRow rt pdfText (h ! src)]))"
  by (induction tableData) (simp_all add: alloc_def)

lemma find_in_store:
  assumes "\<forall>a\<in>set tableData. a < length h"
  shows "List.find (\<lambda>row. P ((h @ xs) ! row)) tableData = List.find (\<lambda>row. P (h ! row)) tableData"
  using assms by (intro find_cong) (auto simp: nth_append)

lemma byFileName_in_store:
  assumes "\<forall>a\<in>set tableData. a < length h"
  shows "byFileName (h @ xs) tableData nums = byFileName h tableData nums"
proof (induction nums)
  case Nil
  then show ?case by simp
next
  case (Cons g nums)
  show ?case
    by (simp add: find_in_store [OF assms, of "\<lambda>r. nf r = Some g" xs] Cons
        split: option.splits)
qed

lemma byFileName_mem: "byFileName h tableData nums = Some r \<Longrightarrow> r \<in> set tableData"
  by (auto simp: byFileName_find find_Some_iff split: option.splits)

lemma find_mem: "List.find P xs = Some r \<Longrightarrow> r \<in> set xs"
  by (auto simp: find_Some_iff)

lemma findMatchingRow_other_store:
  assumes "marketplace \<noteq> js ''Magalu''"
  shows "snd (findMatchingRow rt h pdfText tableData fileName marketplace) = h"
  using assms by (simp add: findMatchingRow_other split: option.splits)

lemma findMatchingRow_other_mem:
  assumes "marketplace \<noteq> js ''Magalu''"
    and "fst (findMatchingRow rt h pdfText tableData fileName marketplace) = Some r"
  shows "r \<in> set tableData"
  using assms
  by (auto simp: findMatchingRow_other byNumeroValor_def byValor_def byNumero_def
      split: option.splits dest: byFileName_mem find_mem)

lemma findMatchingRow_in_store:
  assumes "\<forall>a\<in>set tableData. a < length h"
  shows "result_row (findMatchingRow rt (h @ xs) pdfText tableData fileName marketplace) =
         result_row (findMatchingRow rt h pdfText tableData fileName marketplace)"
proof (cases "marketplace = js ''Magalu''")
  case True
  let ?N = "normalizeMagalu rt pdfText"
  have f: "List.find (\<lambda>row. valorFoundMagalu rt ?N ((h @ xs) ! row)) tableData =
           List.find (\<lambda>row. valorFoundMagalu rt ?N (h ! row)) tableData"
    by (rule find_in_store [OF assms])
  show ?thesis
  proof (cases "List.find (\<lambda>row. valorFoundMagalu rt ?N (h ! row)) tableData")
    case None
    with f True show ?thesis
      by (simp add: findMatchingRow_def findMatchingRowMagalu_def loopMagalu_find result_row_def)
  next
    case (Some src)
    then have "src \<in> set tableData" by (auto simp: find_Some_iff)
    with assms have "(h @ xs) ! src = h ! src" by (simp add: nth_append)
    with Some f True show ?thesis
      by (simp add: findMatchingRow_def findMatchingRowMagalu_def loopMagalu_find result_row_def)
  qed
next
  case False
  let ?N = "toUpperCase rt (squeeze_spaces pdfText)"
  have 1: "byFileName (h @ xs) tableData (fileNameNumbers fileName) =
           byFileName h tableData (fileNameNumbers fileName)"
    by (rule byFileName_in_store [OF assms])
  have 2: "byNumeroValor rt (h @ xs) ?N tableData = byNumeroValor rt h ?N tableData"
    unfolding byNumeroValor_def
    by (rule find_in_store [OF assms, of "\<lambda>r. nfFound ?N r \<and> valorFound rt ?N r"])
  have 3: "byValor rt (h @ xs) ?N tableData = byValor rt h ?N tableData"
    unfolding byValor_def by (rule find_in_store [OF assms])
  have 4: "byNumero (h @ xs) ?N tableData = byNumero h ?N tableData"
    unfolding byNumero_def by (rule find_in_store [OF assms])
  have same: "fst (findMatchingRow rt (h @ xs) pdfText tableData fileName marketplace) =
              fst (findMatchingRow rt h pdfText tableData fileName marketplace)"
    using False by (simp add: findMatchingRow_other 1 2 3 4 split: option.splits)
  show ?thesis
  proof (cases "fst (findMatchingRow rt h pdfText tableData fileName marketplace)")
    case None
    with same show ?thesis by (simp add: result_row_def)
  next
    case (Some r)
    from findMatchingRow_other_mem [OF False Some] assms
    have "(h @ xs) ! r = h ! r" by (simp add: nth_append)
    with Some same show ?thesis
      by (simp add: result_row_def findMatchingRow_other_store [OF False])
  qed
qed

text \<open>
  C8. The matcher writes to no record: after a call every object of the store, so every
  record of the table, is as before. For the other marketplaces the store is unchanged
  and the result is one of the references of the table. For Magalu a match is a new
  object, the matched record with identifier and type filled in, at a reference that
  is not in the table; a later call, with any PDF text, returns the record it would have
  returned before, so several PDFs may get copies of the same record.
\<close>

theorem findMatchingRow_frame:
  assumes "\<forall>a\<in>set tableData. a < length h"
    and "findMatchingRow rt h pdfText tableData fileName marketplace = (res, h')"
  shows "(\<forall>a<length h. h' ! a = h ! a) \<and>
         (\<forall>a\<in>set tableData. h' ! a = h ! a) \<and>
         (marketplace \<noteq> js ''Magalu'' \<longrightarrow>
            h' = h \<and> (\<forall>r. res = Some r \<longrightarrow> r \<in> set tableData)) \<and>
         (marketplace = js ''Magalu'' \<longrightarrow>
            (res = None \<longrightarrow> h' = h) \<and>
            (\<forall>r. res = Some r \<longrightarrow>
               r \<notin> set tableData \<and> r = length h \<and>
               (\<exists>src\<in>set tableData. h' = h @ [updatedRow rt pdfText (h ! src)]))) \<and>
         (\<forall>pdfText2 fileName2.
            result_row (findMatchingRow rt h' pdfText2 tableData fileName2 marketplace) =
            result_row (findMatchingRow rt h pdfText2 tableData fileName2 marketplace))"
proof (cases "marketplace = js ''Magalu''")
  case True
  let ?N = "normalizeMagalu rt pdfText"
  show ?thesis
  proof (cases "List.find (\<lambda>row. valorFoundMagalu rt ?N (h ! row)) tableData")
    case None
    with True assms(2) have "res = None" "h' = h"
      by (simp_all add: findMatchingRow_def findMatchingRowMagalu_def loopMagalu_find)
    with True show ?thesis by simp
  next
    case (Some src)
    with True assms(2) have r: "res = Some (length h)"
      and h': "h' = h @ [updatedRow rt pdfText (h ! src)]"
      by (simp_all add: findMatchingRow_def findMatchingRowMagalu_def loopMagalu_find)
    from Some have src: "src \<in> set tableData" by (auto simp: find_Some_iff)
    from assms(1) have fresh: "length h \<notin> set tableData" by auto
    have old: "\<forall>a<length h. h' ! a = h ! a" by (simp add: h' nth_append)
    with assms(1) have tab: "\<forall>a\<in>set tableData. h' ! a = h ! a" by simp
    have again: "\<forall>pdfText2 fileName2.
            result_row (findMatchingRow rt h' pdfText2 tableData fileName2 marketplace) =
            result_row (findMatchingRow rt h pdfText2 tableData fileName2 marketplace)"
      unfolding h' using findMatchingRow_in_store [OF assms(1)] by blast
    from True r h' src fresh old tab again show ?thesis by auto
  qed
next
  case False
  from findMatchingRow_other_store [OF False, of rt h pdfText tableData fileName] assms(2)
  have h': "h' = h" by simp
  from findMatchingRow_other_mem [OF False, of rt h pdfText tableData fileName] assms(2)
  have "\<forall>r. res = Some r \<longrightarrow> r \<in> set tableData" by simp
  with False h' show ?thesis by simp
qed

theorem findMatchingRow_frame_witness:
  "length magalu_rows = 2 \<and>
   findMatchingRow decimal_runtime magalu_rows (js ''Nota: 4455 valor R$ 20,05'') [0, 1]
     (js ''a.pdf'') (js ''Magalu'') =
     (Some 2, magalu_rows @
        [\<lparr> nf = Some (js ''4455''), valor = 2005, valorFormatado = js ''20,05'',
           descricao = js ''Taxa'', tipo = Tipo NFS \<rparr>]) \<and>
   (magalu_rows @
        [\<lparr> nf = Some (js ''4455''), valor = 2005, valorFormatado = js ''20,05'',
           descricao = js ''Taxa'', tipo = Tipo NFS \<rparr>]) ! 0 = magalu_rows ! 0 \<and>
   (magalu_rows @
        [\<lparr> nf = Some (js ''4455''), valor = 2005, valorFormatado = js ''20,05'',
           descricao = js ''Taxa'', tipo = Tipo NFS \<rparr>]) ! 1 = magalu_rows ! 1 \<and>
   2 \<notin> set [0, 1::nat] \<and>
   result_row (findMatchingRow decimal_runtime
      (magalu_rows @
        [\<lparr> nf = Some (js ''4455''), valor = 2005, valorFormatado = js ''20,05'',
           descricao = js ''Taxa'', tipo = Tipo NFS \<rparr>])
      (js ''NOTA DE DEBITO Nota: 9988 total 20,05'') [0, 1] (js ''b.pdf'') (js ''Magalu'')) =
     Some \<lparr> nf = Some (js ''9988''), valor = 2005, valorFormatado = js ''20,05'',
            descricao = js ''Taxa'', tipo = Tipo ND \<rparr>"
proof -
  let ?h' = "magalu_rows @
        [\<lparr> nf = Some (js ''4455''), valor = 2005, valorFormatado = js ''20,05'',
           descricao = js ''Taxa'', tipo = Tipo NFS \<rparr>]"
  have a: "\<forall>a\<in>set [0, 1]. a < length magalu_rows" by (simp add: magalu_rows_def)
  have b: "findMatchingRow decimal_runtime magalu_rows (js ''Nota: 4455 valor R$ 20,05'')
             [0, 1] (js ''a.pdf'') (js ''Magalu'') = (Some 2, ?h')"
    by code_simp
  have c: "result_row (findMatchingRow decimal_runtime magalu_rows
             (js ''NOTA DE DEBITO Nota: 9988 total 20,05'') [0, 1] (js ''b.pdf'')
             (js ''Magalu'')) =
           Some \<lparr> nf = Some (js ''9988''), valor = 2005, valorFormatado = js ''20,05'',
                  descricao = js ''Taxa'', tipo = Tipo ND \<rparr>"
    by code_simp
  have l: "length magalu_rows = 2" by (simp add: magalu_rows_def)
  from findMatchingRow_frame [OF a b] a b c l show ?thesis by simp
qed

section \<open>Properties of the invoice number\<close>

lemma first_at_Some: "first_at f s = Some g \<Longrightarrow> \<exists>t. f t = Some g"
  by (induction s) (auto split: option.splits)

lemma capture_at_length:
  assumes "capture_at pre [Q lo hi p] to_end s = Some g"
  shows "lo \<le> length g"
proof -
  let ?xs = "concat (map (\<lambda>t. map (\<lambda>u. (t, u)) (run [Q lo hi p] t)) (run pre s))"
  from assms obtain t u where f: "List.find (\<lambda>(t, u). if to_end then u = [] else True) ?xs = Some (t, u)"
    and tu: "g = take (length t - length u) t"
    unfolding capture_at_def by (auto split: option.splits)
  from f have "(t, u) \<in> set ?xs" by (rule find_mem)
  then have "u \<in> set (run [Q lo hi p] t)" by auto
  then obtain k where k: "u = drop k t" "k \<in> set (counts lo hi (length (takeWhile p t)))"
    by auto
  from k(2) have lo: "lo \<le> k" and "k \<le> length (takeWhile p t)"
    by (auto simp: counts_def split: option.splits)
  with length_takeWhile_le [of p t] have "k \<le> length t" by simp
  with tu k(1) lo show ?thesis by simp
qed

lemma nfPatterns_nonempty:
  assumes "p \<in> set nfPatterns" and "match_group p s = Some g"
  shows "g \<noteq> []"
proof -
  from assms(2) obtain t where t: "capture_at (fst p) (snd p) False t = Some g"
    unfolding match_group_def by (blast dest: first_at_Some)
  from assms(1) consider "snd p = [Q 1 None is_digit]" | "snd p = [Q 4 None is_digit]"
    by (auto simp: nfPatterns_def)
  then have "1 \<le> length g"
  proof cases
    case 1
    with t capture_at_length [of "fst p" 1 None is_digit False t g] show ?thesis by simp
  next
    case 2
    with t capture_at_length [of "fst p" 4 None is_digit False t g] show ?thesis by simp
  qed
  then show ?thesis by auto
qed

lemma firstPattern_first:
  assumes "\<forall>p\<in>set ps. \<forall>g. match_group p s = Some g \<longrightarrow> g \<noteq> []"
    and "i < length ps" and "match_group (ps ! i) s = Some g"
    and "\<forall>j<i. match_group (ps ! j) s = None"
  shows "firstPattern ps s = Some g"
  using assms
proof (induction ps arbitrary: i)
  case Nil
  then show ?case by simp
next
  case (Cons p ps)
  show ?case
  proof (cases i)
    case 0
    with Cons.prems show ?thesis by auto
  next
    case (Suc i')
    with Cons.prems(4) have p: "match_group p s = None" by auto
    from Cons.prems(4) Suc have "\<forall>j<i'. match_group (ps ! j) s = None" by auto
    with Cons.IH [of i'] Cons.prems(1-3) Suc have "firstPattern ps s = Some g" by simp
    with p show ?thesis by simp
  qed
qed

lemma firstPattern_None:
  "\<forall>p\<in>set ps. match_group p s = None \<Longrightarrow> firstPattern ps s = None"
  by (induction ps) auto

lemma run_one:
  "run (one p # r) (c # cs) = (if p c then run r cs else [])"
  "run (Q (Suc 0) (Some (Suc 0)) p # r) (c # cs) = (if p c then run r cs else [])"
  by (simp_all add: counts_def)

lemma run_star_none: "takeWhile p s = [] \<Longrightarrow> run [star p] s = [s]"
  by (simp add: counts_def)

lemma digit_not_sep: "is_digit c \<Longrightarrow> \<not> (is_space c \<or> c = 58)"
  by (auto simp: is_digit_def is_space_def)

lemma takeWhile_digits:
  assumes "\<forall>c\<in>set ds. is_digit c" and "rest = [] \<or> \<not> is_digit (hd rest)"
  shows "takeWhile is_digit (ds @ rest) = ds"
  using assms by (cases rest) (simp_all add: takeWhile_tail)

lemma nota_digits:
  assumes ds: "\<forall>c\<in>set ds. is_digit c" "4 \<le> length ds"
    and rest: "rest = [] \<or> \<not> is_digit (hd rest)"
  shows "match_group (lit_i (js ''Nota'') @ [sep], [Q 4 None is_digit])
           (js ''Nota'' @ ds @ rest) = Some ds"
proof -
  from ds obtain d ds' where d: "ds = d # ds'" "is_digit d" by (cases ds) auto
  then have "takeWhile (\<lambda>c. is_space c \<or> c = 58) (ds @ rest) = []"
    using digit_not_sep [of d] by simp
  then have pre: "run (lit_i (js ''Nota'') @ [sep]) (js ''Nota'' @ ds @ rest) = [ds @ rest]"
    by (simp add: lit_i_def js_def run_one ci_def sep_def run_star_none del: run.simps(2))
  have n: "length (takeWhile is_digit (ds @ rest)) = length ds"
    by (simp add: takeWhile_digits [OF ds(1) rest])
  have "[4 ..< Suc (length ds)] = [4 ..< length ds] @ [length ds]" using ds(2) by simp
  then have grp: "run [Q 4 None is_digit] (ds @ rest) =
                  rest # map (\<lambda>k. drop k (ds @ rest)) (rev [4 ..< length ds])"
    by (simp add: counts_def n)
  have "capture_at (lit_i (js ''Nota'') @ [sep]) [Q 4 None is_digit] False
          (js ''Nota'' @ ds @ rest) = Some ds"
    by (simp add: capture_at_def pre grp del: run.simps)
  then show ?thesis
    by (simp add: match_group_def js_def)
qed

text \<open>
  C6. The document type is \<open>ND\<close> exactly when the upper-cased PDF text contains
  \<open>NOTA DE DEBITO\<close>, with or without the accent, and \<open>NFS\<close> otherwise. The
  identifier is the group of the first of the five patterns that matches; the last
  pattern finds \<open>Nota\<close> followed by four or more digits; when no pattern matches the
  identifier is \<open>null\<close>, and the document type is the same as before.
\<close>

theorem extractNFInfoFromPDF_first_pattern:
  "(snd (extractNFInfoFromPDF rt pdfText) = ND \<longleftrightarrow>
      str_includes (toUpperCase rt pdfText) NOTA_DE_DEBITO_acento \<or>
      str_includes (toUpperCase rt pdfText) (js ''NOTA DE DEBITO'')) \<and>
   (snd (extractNFInfoFromPDF rt pdfText) \<noteq> ND \<longrightarrow> snd (extractNFInfoFromPDF rt pdfText) = NFS) \<and>
   (i < length nfPatterns \<and> match_group (nfPatterns ! i) pdfText = Some g \<and>
    (\<forall>j<i. match_group (nfPatterns ! j) pdfText = None) \<longrightarrow>
      fst (extractNFInfoFromPDF rt pdfText) = Some g) \<and>
   ((\<forall>p\<in>set nfPatterns. match_group p pdfText = None) \<longrightarrow>
      fst (extractNFInfoFromPDF rt pdfText) = None) \<and>
   length nfPatterns = 5 \<and>
   nfPatterns ! 4 = (lit_i (js ''Nota'') @ [sep], [Q 4 None is_digit]) \<and>
   ((\<forall>c\<in>set ds. is_digit c) \<and> 4 \<le> length ds \<and> (rest = [] \<or> \<not> is_digit (hd rest)) \<longrightarrow>
      match_group (nfPatterns ! 4) (js ''Nota'' @ ds @ rest) = Some ds)"
proof -
  have t: "snd (extractNFInfoFromPDF rt pdfText) = ND \<longleftrightarrow>
      str_includes (toUpperCase rt pdfText) NOTA_DE_DEBITO_acento \<or>
      str_includes (toUpperCase rt pdfText) (js ''NOTA DE DEBITO'')"
    by (simp add: extractNFInfoFromPDF_def isNotaDebito_def)
  have t': "snd (extractNFInfoFromPDF rt pdfText) \<noteq> ND \<longrightarrow>
            snd (extractNFInfoFromPDF rt pdfText) = NFS"
    by (cases "snd (extractNFInfoFromPDF rt pdfText)") simp_all
  have f: "fst (extractNFInfoFromPDF rt pdfText) = firstPattern nfPatterns pdfText"
    by (simp add: extractNFInfoFromPDF_def)
  have ne: "\<forall>p\<in>set nfPatterns. \<forall>g. match_group p pdfText = Some g \<longrightarrow> g \<noteq> []"
    using nfPatterns_nonempty by blast
  have a: "i < length nfPatterns \<and> match_group (nfPatterns ! i) pdfText = Some g \<and>
    (\<forall>j<i. match_group (nfPatterns ! j) pdfText = None) \<longrightarrow>
      fst (extractNFInfoFromPDF rt pdfText) = Some g"
    using firstPattern_first [OF ne, of i g] by (simp add: f)
  have b: "(\<forall>p\<in>set nfPatterns. match_group p pdfText = None) \<longrightarrow>
      fst (extractNFInfoFromPDF rt pdfText) = None"
    by (simp add: f firstPattern_None)
  have l: "length nfPatterns = 5"
    and l4: "nfPatterns ! 4 = (lit_i (js ''Nota'') @ [sep], [Q 4 None is_digit])"
    by (simp_all add: nfPatterns_def)
  have c: "(\<forall>c\<in>set ds. is_digit c) \<and> 4 \<le> length ds \<and> (rest = [] \<or> \<not> is_digit (hd rest)) \<longrightarrow>
      match_group (nfPatterns ! 4) (js ''Nota'' @ ds @ rest) = Some ds"
    unfolding l4 using nota_digits [of ds rest] by blast
  from t t' a b l l4 c show ?thesis by blast
qed

theorem extractNFInfoFromPDF_first_pattern_witness:
  "3 < length nfPatterns \<and> match_group (nfPatterns ! 3) pdf_debit_note = Some (js ''55'') \<and>
   match_group (nfPatterns ! 0) pdf_debit_note = None \<and>
   match_group (nfPatterns ! 1) pdf_debit_note = None \<and>
   match_group (nfPatterns ! 2) pdf_debit_note = None \<and>
   str_includes (toUpperCase decimal_runtime pdf_debit_note) NOTA_DE_DEBITO_acento \<and>
   extractNFInfoFromPDF decimal_runtime pdf_debit_note = (Some (js ''55''), ND) \<and>
   list_all (\<lambda>p. match_group p pdf_no_number = None) nfPatterns \<and>
   extractNFInfoFromPDF decimal_runtime pdf_no_number = (None, NFS) \<and>
   list_all is_digit (js ''12345'') \<and> 4 \<le> length (js ''12345'') \<and>
   \<not> is_digit (hd (js '' de 2024'')) \<and>
   match_group (nfPatterns ! 4) (js ''Nota'' @ js ''12345'' @ js '' de 2024'') = Some (js ''12345'')"
proof -
  have a: "3 < length nfPatterns" "match_group (nfPatterns ! 3) pdf_debit_note = Some (js ''55'')"
    "match_group (nfPatterns ! 0) pdf_debit_note = None"
    "match_group (nfPatterns ! 1) pdf_debit_note = None"
    "match_group (nfPatterns ! 2) pdf_debit_note = None"
    by code_simp+
  have a': "\<forall>j<3. match_group (nfPatterns ! j) pdf_debit_note = None"
  proof (intro allI impI)
    fix j :: nat
    assume "j < 3"
    then have "j = 0 \<or> j = 1 \<or> j = 2" by auto
    with a(3-5) show "match_group (nfPatterns ! j) pdf_debit_note = None" by auto
  qed
  have b: "str_includes (toUpperCase decimal_runtime pdf_debit_note) NOTA_DE_DEBITO_acento"
    by code_simp
  have c: "\<forall>p\<in>set nfPatterns. match_group p pdf_no_number = None"
    by code_simp
  have d: "\<not> str_includes (toUpperCase decimal_runtime pdf_no_number) NOTA_DE_DEBITO_acento"
    "\<not> str_includes (toUpperCase decimal_runtime pdf_no_number) (js ''NOTA DE DEBITO'')"
    by code_simp+
  have e: "\<forall>c\<in>set (js ''12345''). is_digit c" "4 \<le> length (js ''12345'')"
    "\<not> is_digit (hd (js '' de 2024''))"
    by code_simp+
  note t1 = extractNFInfoFromPDF_first_pattern [of decimal_runtime pdf_debit_note 3
      "js ''55''" "js ''12345''" "js '' de 2024''"]
  note t2 = extractNFInfoFromPDF_first_pattern [of decimal_runtime pdf_no_number 3
      "js ''55''" "js ''12345''" "js '' de 2024''"]
  from t1 a(1,2) a' b have r1: "extractNFInfoFromPDF decimal_runtime pdf_debit_note =
                                 (Some (js ''55''), ND)"
    by (intro prod_eqI) simp_all
  from t2 c d have r2: "extractNFInfoFromPDF decimal_runtime pdf_no_number = (None, NFS)"
    by (intro prod_eqI) simp_all
  from t1 e have r3: "match_group (nfPatterns ! 4) (js ''Nota'' @ js ''12345'' @ js '' de 2024'') =
                      Some (js ''12345'')"
    by blast
  from a b c e r1 r2 r3 show ?thesis by (simp add: list_all_iff)
qed

section \<open>The amount formats of the Magalu matcher\<close>

text \<open>
  What the Magalu matcher returns: a copy, with identifier and type filled in, of the
  first record one of whose formats occurs in the normalized PDF text.
\<close>

lemma findMatchingRowMagalu_first:
  "findMatchingRowMagalu rt h pdfText tableData =
     (case List.find (\<lambda>row. valorFoundMagalu rt (normalizeMagalu rt pdfText) (h ! row))
             tableData of
        None \<Rightarrow> (None, h)
      | Some src \<Rightarrow> (Some (length h), h @ [updatedRow rt pdfText (h ! src)]))"
  by (simp add: findMatchingRowMagalu_def loopMagalu_find)

text \<open>
  C5. The formats tried for a Magalu record are meant to hold the amount with two
  decimal digits and with one. The code prints the second form with
  \<open>parseInt(decimal)\<close>, which drops a leading zero of the cents and nothing else. So
  for the amount 10.50 every format has the two digits \<open>50\<close> and a PDF that prints
  \<open>R$ 10,5\<close> is not matched, while the amount 20.05 gets the format \<open>R$20,5\<close> and
  matches a PDF that prints \<open>R$ 20,5\<close>. The matcher of the other marketplaces finds
  \<open>10,5\<close> for the amount 10.50.
\<close>

theorem magalu_formats_parseInt_cents:
  "valor (magalu_rows ! 0) = 1050 \<and> valor (magalu_rows ! 1) = 2005 \<and>
   valorFormatsMagalu decimal_runtime (magalu_rows ! 0) =
     [js ''R$10,50'', js ''R$ 10,50'', js ''R$10,50'', js ''R$ 10,50'',
      js ''R$10.50'', js ''R$ 10.50'', js ''R$10.50'', js ''R$ 10.50'',
      js ''10,50'', js ''10,50'', js ''10.50'', js ''10.50'', js ''10,50''] \<and>
   findMatchingRow decimal_runtime magalu_rows (js ''Total R$ 10,5'') [0] (js ''a.pdf'')
     (js ''Magalu'') = (None, magalu_rows) \<and>
   valorFormatsMagalu decimal_runtime (magalu_rows ! 1) =
     [js ''R$20,05'', js ''R$ 20,05'', js ''R$20,5'', js ''R$ 20,5'',
      js ''R$20.05'', js ''R$ 20.05'', js ''R$20.5'', js ''R$ 20.5'',
      js ''20,05'', js ''20,5'', js ''20.05'', js ''20.5'', js ''20,05''] \<and>
   fst (findMatchingRow decimal_runtime magalu_rows (js ''Total R$ 20,5'') [1] (js ''a.pdf'')
     (js ''Magalu'')) = Some 2 \<and>
   valorFound decimal_runtime
     (toUpperCase decimal_runtime (squeeze_spaces (js ''Total R$ 10,5''))) (magalu_rows ! 0)"
  by code_simp

end
